theory Spec2Isabelle
  imports Complex_Main
begin

section \<open>The scalar type \<open>T = long double\<close>\<close>

text \<open>
  The geometry routine of the CALICO 2b1 post (\<^verbatim>\<open>src/data/blog/lambdas.mdx\<close>, the C++
  listing with \<^verbatim>\<open>inline namespace Geo\<close> and \<^verbatim>\<open>solve\<close>) computes in \<^verbatim>\<open>long double\<close>.
  The model keeps the IEEE special values the routine relies on (its own comment says
  that the answer is NaN for an axis-aligned input): a scalar is a finite real, the
  negative zero, one of the two infinities, or NaN. \<open>Fin 0\<close> is the positive zero.
  Division by zero, the arithmetic of the infinities, the sign of a zero result and the
  comparisons with NaN follow IEEE 754. Negation, absolute value, the comparisons,
  \<^verbatim>\<open>std::min\<close> and \<^verbatim>\<open>std::max\<close> are exact in the hardware format as in the model.

  Sums, products and quotients of finite values are the exact real results: the
  rounding to the 64-bit significand, the overflow to an infinity and the underflow of
  the hardware format are not modelled. The theorems of the claims are therefore about
  the scalars that the operations return (\<open>ld_add\<close>, \<open>ld_sub\<close>, \<open>ld_mul\<close>, \<open>ld_div\<close> and
  what is built from them), about their order and about their class (finite, zero,
  infinite, NaN); none of them states the real value of a sum, a product or a quotient
  of finite scalars for all inputs. Such values appear only in the runs on the concrete
  inputs further down. On \<open>flat16\<close>, \<open>far16\<close>, \<open>corners43\<close>, \<open>diamond16\<close>,
  \<open>far_diamond16\<close> and \<open>nocorner16\<close> every coordinate and every intermediate result is
  an integer or a dyadic fraction of fewer than 64 bits, which the hardware format
  holds without rounding. On \<open>tri15\<close>, \<open>tiny15\<close> and \<open>rect20\<close> some coordinates or
  intermediate results are not dyadic; what is stated of these inputs is which input
  points form the hull, the outcome of comparisons, and values computed from
  accumulators that are integers.
\<close>

datatype ld = Fin real | NegZero | PInf | NInf | NaN

fun isnan :: "ld \<Rightarrow> bool" where
  "isnan NaN = True"
| "isnan _ = False"

fun is_inf :: "ld \<Rightarrow> bool" where
  "is_inf PInf = True"
| "is_inf NInf = True"
| "is_inf _ = False"

fun is_fin :: "ld \<Rightarrow> bool" where
  "is_fin (Fin x) = True"
| "is_fin NegZero = True"
| "is_fin _ = False"

text \<open>The real number a finite scalar stands for (both zeros stand for 0).\<close>

fun rv :: "ld \<Rightarrow> real" where
  "rv (Fin x) = x"
| "rv _ = 0"

fun is_zero :: "ld \<Rightarrow> bool" where
  "is_zero (Fin x) = (x = 0)"
| "is_zero NegZero = True"
| "is_zero _ = False"

fun signbit :: "ld \<Rightarrow> bool" where
  "signbit (Fin x) = (x < 0)"
| "signbit NegZero = True"
| "signbit NInf = True"
| "signbit _ = False"

definition mkzero :: "bool \<Rightarrow> ld" where
  "mkzero s = (if s then NegZero else Fin 0)"

definition mkinf :: "bool \<Rightarrow> ld" where
  "mkinf s = (if s then NInf else PInf)"

fun ld_neg :: "ld \<Rightarrow> ld" where
  "ld_neg (Fin x) = (if x = 0 then NegZero else Fin (- x))"
| "ld_neg NegZero = Fin 0"
| "ld_neg PInf = NInf"
| "ld_neg NInf = PInf"
| "ld_neg NaN = NaN"

text \<open>\<^verbatim>\<open>a + b\<close>: an exact zero sum is \<open>+0\<close> unless both operands are \<open>-0\<close>.\<close>

definition ld_add :: "ld \<Rightarrow> ld \<Rightarrow> ld" where
  "ld_add a b =
     (if isnan a \<or> isnan b then NaN
      else if is_inf a then (if is_inf b \<and> a \<noteq> b then NaN else a)
      else if is_inf b then b
      else if rv a + rv b = 0 then (if a = NegZero \<and> b = NegZero then NegZero else Fin 0)
      else Fin (rv a + rv b))"

text \<open>\<^verbatim>\<open>a - b\<close> is \<^verbatim>\<open>a + (-b)\<close>, also for the sign of a zero result.\<close>

definition ld_sub :: "ld \<Rightarrow> ld \<Rightarrow> ld" where
  "ld_sub a b = ld_add a (ld_neg b)"

text \<open>\<^verbatim>\<open>a * b\<close>: the sign is the exclusive or of the signs; \<open>0 * inf\<close> is NaN.\<close>

definition ld_mul :: "ld \<Rightarrow> ld \<Rightarrow> ld" where
  "ld_mul a b =
     (if isnan a \<or> isnan b then NaN
      else if is_inf a \<or> is_inf b then
        (if is_zero a \<or> is_zero b then NaN else mkinf (signbit a \<noteq> signbit b))
      else if rv a * rv b = 0 then mkzero (signbit a \<noteq> signbit b)
      else Fin (rv a * rv b))"

text \<open>\<^verbatim>\<open>a / b\<close>: \<open>0/0\<close> and \<open>inf/inf\<close> are NaN, a nonzero value over a zero is an
  infinity, a finite value over an infinity is a zero.\<close>

definition ld_div :: "ld \<Rightarrow> ld \<Rightarrow> ld" where
  "ld_div a b =
     (if isnan a \<or> isnan b then NaN
      else if is_inf a then (if is_inf b then NaN else mkinf (signbit a \<noteq> signbit b))
      else if is_inf b then mkzero (signbit a \<noteq> signbit b)
      else if is_zero b then (if is_zero a then NaN else mkinf (signbit a \<noteq> signbit b))
      else if is_zero a then mkzero (signbit a \<noteq> signbit b)
      else Fin (rv a / rv b))"

text \<open>\<^verbatim>\<open>a < b\<close> and \<^verbatim>\<open>a <= b\<close>: false as soon as one side is NaN; the zeros are equal.\<close>

definition ld_lt :: "ld \<Rightarrow> ld \<Rightarrow> bool" where
  "ld_lt a b =
     (\<not> isnan a \<and> \<not> isnan b \<and>
      (if a = NInf then b \<noteq> NInf
       else if b = PInf then a \<noteq> PInf
       else if a = PInf \<or> b = NInf then False
       else rv a < rv b))"

definition ld_le :: "ld \<Rightarrow> ld \<Rightarrow> bool" where
  "ld_le a b =
     (\<not> isnan a \<and> \<not> isnan b \<and>
      (if a = NInf \<or> b = PInf then True
       else if a = PInf \<or> b = NInf then False
       else rv a \<le> rv b))"

fun ld_abs :: "ld \<Rightarrow> ld" where
  "ld_abs (Fin x) = Fin \<bar>x\<bar>"
| "ld_abs NegZero = Fin 0"
| "ld_abs PInf = PInf"
| "ld_abs NInf = PInf"
| "ld_abs NaN = NaN"

text \<open>\<^verbatim>\<open>std::min(a, b)\<close> is \<^verbatim>\<open>(b < a) ? b : a\<close> and \<^verbatim>\<open>std::max(a, b)\<close> is
  \<^verbatim>\<open>(a < b) ? b : a\<close>: with a NaN second argument both return the first.\<close>

definition std_min :: "ld \<Rightarrow> ld \<Rightarrow> ld" where
  "std_min a b = (if ld_lt b a then b else a)"

definition std_max :: "ld \<Rightarrow> ld \<Rightarrow> ld" where
  "std_max a b = (if ld_lt a b then b else a)"

section \<open>Namespace \<open>Geo\<close>\<close>

text \<open>\<^verbatim>\<open>pt\<close>, \<^verbatim>\<open>vec\<close> and \<^verbatim>\<open>line\<close> are all \<^verbatim>\<open>std::array<T, 2>\<close>; a line is
  (slope, intercept).\<close>

type_synonym pt = "ld \<times> ld"
type_synonym vec = "ld \<times> ld"
type_synonym line = "ld \<times> ld"

definition cross :: "vec \<Rightarrow> vec \<Rightarrow> ld" where
  "cross a b = ld_sub (ld_mul (fst a) (snd b)) (ld_mul (snd a) (fst b))"

text \<open>\<^verbatim>\<open>operator-\<close> on points.\<close>

definition vsub :: "pt \<Rightarrow> pt \<Rightarrow> vec" where
  "vsub a b = (ld_sub (fst a) (fst b), ld_sub (snd a) (snd b))"

definition eval :: "line \<Rightarrow> ld \<Rightarrow> ld" where
  "eval a x = ld_add (ld_mul (fst a) x) (snd a)"

definition intersect :: "line \<Rightarrow> line \<Rightarrow> pt" where
  "intersect a b =
     (let x = ld_div (ld_sub (snd b) (snd a)) (ld_sub (fst a) (fst b))
      in (x, eval a x))"

text \<open>\<^verbatim>\<open>make_line(loc, slope)\<close> and the two-point overload \<^verbatim>\<open>make_line(a, b)\<close>.\<close>

definition make_line :: "pt \<Rightarrow> ld \<Rightarrow> line" where
  "make_line loc slope = (slope, ld_sub (snd loc) (ld_mul slope (fst loc)))"

definition make_line2 :: "pt \<Rightarrow> pt \<Rightarrow> line" where
  "make_line2 a b =
     make_line a (ld_div (ld_sub (snd b) (snd a)) (ld_sub (fst b) (fst a)))"

text \<open>One round of the loop of \<^verbatim>\<open>polygon_area\<close>, at index \<open>i\<close>.\<close>

definition area_step :: "pt list \<Rightarrow> nat \<Rightarrow> ld \<Rightarrow> ld" where
  "area_step locs i res =
     (let p = locs ! i; q = locs ! ((i + 1) mod length locs)
      in ld_add res (ld_sub (ld_mul (fst p) (snd q)) (ld_mul (snd p) (fst q))))"

definition polygon_area :: "pt list \<Rightarrow> ld" where
  "polygon_area locs =
     ld_div (ld_abs (fold (area_step locs) [0..<length locs] (Fin 0))) (Fin 2)"

text \<open>\<^verbatim>\<open>operator<\<close> of \<^verbatim>\<open>std::array<T, 2>\<close>: lexicographic, built from \<^verbatim>\<open><\<close> alone.\<close>

definition pt_less :: "pt \<Rightarrow> pt \<Rightarrow> bool" where
  "pt_less a b =
     (ld_lt (fst a) (fst b) \<or> (\<not> ld_lt (fst b) (fst a) \<and> ld_lt (snd a) (snd b)))"

text \<open>\<^verbatim>\<open>std::sort\<close>, as an insertion sort by \<open>pt_less\<close>. The library leaves the order of
  equivalent elements open; points that compare equivalent are equal unless they
  differ in the sign of a zero.\<close>

fun insort_pt :: "pt \<Rightarrow> pt list \<Rightarrow> pt list" where
  "insort_pt p [] = [p]"
| "insort_pt p (q # qs) = (if pt_less q p then q # insort_pt p qs else p # q # qs)"

definition std_sort :: "pt list \<Rightarrow> pt list" where
  "std_sort locs = foldr insort_pt locs []"

text \<open>The \<^verbatim>\<open>while\<close> loop of \<^verbatim>\<open>lower_hull\<close>. The vector \<^verbatim>\<open>hull\<close> is kept as a stack, its
  back first: \<open>b\<close> is \<^verbatim>\<open>hull.back()\<close> and \<open>a\<close> is \<^verbatim>\<open>hull[hull.size() - 2]\<close>.\<close>

fun pop_hull :: "pt list \<Rightarrow> pt \<Rightarrow> pt list" where
  "pop_hull (b # a # st) p =
     (if ld_le (cross (vsub b a) (vsub p b)) (Fin 0) then pop_hull (a # st) p
      else b # a # st)"
| "pop_hull st p = st"

definition push_hull :: "pt \<Rightarrow> pt list \<Rightarrow> pt list" where
  "push_hull p st = p # pop_hull st p"

definition lower_hull :: "pt list \<Rightarrow> pt list" where
  "lower_hull locs =
     (let s = std_sort locs
      in if length s < 2 then s else rev (fold push_hull s []))"

section \<open>\<open>solve\<close>\<close>

text \<open>\<^verbatim>\<open>const T eps = 1e-7\<close>: the literal is a \<^verbatim>\<open>double\<close>, the one nearest to \<open>10\<^sup>-\<^sup>7\<close>, which
  is \<open>944473296573929 / 2\<^sup>7\<^sup>3\<close>; its conversion to \<^verbatim>\<open>long double\<close> is exact.\<close>

definition eps :: ld where
  "eps = Fin (944473296573929 / 2 ^ 73)"

text \<open>The x-coordinate of the intersection of \<open>l1\<close> with the line of slope \<open>m2\<close>
  through \<open>p\<close> (the first inner loop of \<^verbatim>\<open>solve\<close>).\<close>

definition proj_x :: "line \<Rightarrow> ld \<Rightarrow> pt \<Rightarrow> ld" where
  "proj_x l1 m2 p = fst (intersect l1 (make_line p m2))"

definition min_proj :: "line \<Rightarrow> ld \<Rightarrow> pt list \<Rightarrow> ld" where
  "min_proj l1 m2 pts = fold (\<lambda>p acc. std_min acc (proj_x l1 m2 p)) pts (Fin (10 ^ 9))"

definition max_proj :: "line \<Rightarrow> ld \<Rightarrow> pt list \<Rightarrow> ld" where
  "max_proj l1 m2 pts = fold (\<lambda>p acc. std_max acc (proj_x l1 m2 p)) pts (Fin (- (10 ^ 9)))"

text \<open>The second inner loop: the largest intercept of a line of slope \<open>m1\<close> through a
  point.\<close>

definition max_icept :: "ld \<Rightarrow> pt list \<Rightarrow> ld" where
  "max_icept m1 pts = fold (\<lambda>p acc. std_max acc (snd (make_line p m1))) pts (Fin (- (10 ^ 9)))"

text \<open>The four lines \<open>[l1, l2, l3, l4]\<close> built for the hull edge from \<open>a\<close> to \<open>b\<close>.\<close>

definition candidate :: "pt list \<Rightarrow> pt \<Rightarrow> pt \<Rightarrow> line list" where
  "candidate pts a b =
     (let l1 = make_line2 a b;
          m1 = fst l1;
          m2 = ld_div (Fin (- 1)) m1;
          min_x = min_proj l1 m2 pts;
          max_x = max_proj l1 m2 pts;
          l2 = make_line (min_x, eval l1 min_x) m2;
          l3 = make_line (max_x, eval l1 max_x) m2;
          l4 = (m1, max_icept m1 pts)
      in [l1, l2, l3, l4])"

text \<open>The verification loop: \<^verbatim>\<open>works |= std::abs(eval(l, x) - y) < eps\<close> over the four
  lines, \<^verbatim>\<open>good &= works\<close> over the points.\<close>

definition on_line :: "pt \<Rightarrow> line \<Rightarrow> bool" where
  "on_line p l = ld_lt (ld_abs (ld_sub (eval l (fst p)) (snd p))) eps"

definition works :: "line list \<Rightarrow> pt \<Rightarrow> bool" where
  "works ls p = fold (\<lambda>l w. w \<or> on_line p l) ls False"

definition good :: "pt list \<Rightarrow> line list \<Rightarrow> bool" where
  "good pts ls = fold (\<lambda>p g. g \<and> works ls p) pts True"

text \<open>\<^verbatim>\<open>segs = {l1, l3, l4, l2}\<close> and the four intersections of neighbours.\<close>

definition corners :: "line list \<Rightarrow> pt list" where
  "corners ls =
     (let segs = [ls ! 0, ls ! 2, ls ! 3, ls ! 1]
      in map (\<lambda>j. intersect (segs ! j) (segs ! ((j + 1) mod 4))) [0..<4])"

text \<open>The loop over the hull edges: \<open>Some res\<close> is the \<^verbatim>\<open>return\<close> after printing
  \<open>res\<close>, \<open>None\<close> is the loop running to its end.\<close>

fun try_edges :: "pt list \<Rightarrow> pt list \<Rightarrow> ld option" where
  "try_edges pts (a # b # hl) =
     (let ls = candidate pts a b
      in if \<not> good pts ls then try_edges pts (b # hl)
         else let res = polygon_area (corners ls)
              in if \<not> isnan res then Some res else try_edges pts (b # hl))"
| "try_edges pts hl = None"

text \<open>\<^verbatim>\<open>x *= -1, y *= -1\<close> on every point.\<close>

definition reflect :: "pt list \<Rightarrow> pt list" where
  "reflect pts = map (\<lambda>p. (ld_mul (fst p) (Fin (- 1)), ld_mul (snd p) (Fin (- 1)))) pts"

text \<open>The loop \<^verbatim>\<open>for (t = 0; t < 2; t++)\<close>, counted down: the result of the search
  and the array \<^verbatim>\<open>pts\<close> as the loop leaves it.\<close>

fun passes :: "nat \<Rightarrow> pt list \<Rightarrow> ld option \<times> pt list" where
  "passes 0 pts = (None, pts)"
| "passes (Suc k) pts =
     (case try_edges pts (lower_hull pts) of
        Some res \<Rightarrow> (Some res, pts)
      | None \<Rightarrow> passes k (reflect pts))"

text \<open>The code after the loop: the accumulators \<open>(min_x, max_x, min_y, max_y)\<close>.\<close>

definition bbox_step :: "pt \<Rightarrow> ld \<times> ld \<times> ld \<times> ld \<Rightarrow> ld \<times> ld \<times> ld \<times> ld" where
  "bbox_step p acc =
     (case acc of (min_x, max_x, min_y, max_y) \<Rightarrow>
        (std_min min_x (fst p), std_max max_x (fst p),
         std_min min_y (snd p), std_max max_y (snd p)))"

definition bbox :: "pt list \<Rightarrow> ld \<times> ld \<times> ld \<times> ld" where
  "bbox pts = fold bbox_step pts (Fin (10 ^ 9), Fin (- (10 ^ 9)), Fin (10 ^ 9), Fin (- (10 ^ 9)))"

definition bbox_area :: "pt list \<Rightarrow> ld" where
  "bbox_area pts =
     (case bbox pts of (min_x, max_x, min_y, max_y) \<Rightarrow>
        ld_mul (ld_sub max_y min_y) (ld_sub max_x min_x))"

text \<open>\<^verbatim>\<open>solve\<close> on the points it has read: the number it prints.\<close>

definition solve :: "pt list \<Rightarrow> ld" where
  "solve pts =
     (case passes 2 pts of
        (Some res, _) \<Rightarrow> res
      | (None, pts') \<Rightarrow> bbox_area pts')"

text \<open>A point read from the input: two finite decimal numbers (their conversion to the
  hardware format is not modelled).\<close>

definition rpt :: "real \<times> real \<Rightarrow> pt" where
  "rpt p = (Fin (fst p), Fin (snd p))"

definition fin_pt :: "pt \<Rightarrow> bool" where
  "fin_pt p = (is_fin (fst p) \<and> is_fin (snd p))"

section \<open>Concrete inputs\<close>

text \<open>Sixteen boundary points of the axis-aligned rectangle with corners (0,0), (7,0),
  (7,3) and (0,3): eight on the bottom side and eight on the top side, the corners
  among them.\<close>

definition flat16 :: "pt list" where
  "flat16 = map rpt
     [(0, 0), (1, 0), (2, 0), (3, 0), (4, 0), (5, 0), (6, 0), (7, 0),
      (0, 3), (1, 3), (2, 3), (3, 3), (4, 3), (5, 3), (6, 3), (7, 3)]"

text \<open>The same sixteen points moved by \<open>(2e9, 2e9)\<close>.\<close>

definition far16 :: "pt list" where
  "far16 = map (\<lambda>p. rpt (2 * 10 ^ 9 + fst p, 2 * 10 ^ 9 + snd p))
     [(0, 0), (1, 0), (2, 0), (3, 0), (4, 0), (5, 0), (6, 0), (7, 0),
      (0, 3), (1, 3), (2, 3), (3, 3), (4, 3), (5, 3), (6, 3), (7, 3)]"

text \<open>Fifteen points that are no sample of a rectangle: the corners of a triangle and
  twelve points inside it.\<close>

definition tri15 :: "pt list" where
  "tri15 = map rpt
     [(0, 0), (2, 1), (1, 3), (1, 1), (1, 9 / 8), (1, 5 / 4), (1, 11 / 8), (1, 3 / 2),
      (1, 13 / 8), (1, 7 / 4), (1, 15 / 8), (1, 2), (1, 17 / 8), (1, 9 / 4), (1, 19 / 8)]"

text \<open>The points of \<open>tri15\<close> scaled by \<open>1e-8\<close>.\<close>

definition tiny15 :: "pt list" where
  "tiny15 = map (\<lambda>p. rpt (fst p / 10 ^ 8, snd p / 10 ^ 8))
     [(0, 0), (2, 1), (1, 3), (1, 1), (1, 9 / 8), (1, 5 / 4), (1, 11 / 8), (1, 3 / 2),
      (1, 13 / 8), (1, 7 / 4), (1, 15 / 8), (1, 2), (1, 17 / 8), (1, 9 / 4), (1, 19 / 8)]"

text \<open>Twenty points on the boundary of the rectangle with corners (0,0), (4,0), (4,3) and
  (0,3), five per side at equal distances with every corner counted once, and the
  four corners alone.\<close>

definition rect20 :: "pt list" where
  "rect20 = map rpt
     [(0, 0), (4 / 5, 0), (8 / 5, 0), (12 / 5, 0), (16 / 5, 0),
      (4, 0), (4, 3 / 5), (4, 6 / 5), (4, 9 / 5), (4, 12 / 5),
      (4, 3), (16 / 5, 3), (12 / 5, 3), (8 / 5, 3), (4 / 5, 3),
      (0, 3), (0, 12 / 5), (0, 9 / 5), (0, 6 / 5), (0, 3 / 5)]"

definition corners43 :: "pt list" where
  "corners43 = map rpt [(0, 0), (4, 0), (4, 3), (0, 3)]"

text \<open>Sixteen points on the boundary of the rectangle with corners (0,0), (2,2), (1,3)
  and (-1,1), whose sides have slopes 1 and -1 and whose area is 4.\<close>

definition diamond16 :: "pt list" where
  "diamond16 = map rpt
     [(0, 0), (1 / 2, 1 / 2), (1, 1), (3 / 2, 3 / 2), (2, 2),
      (7 / 4, 9 / 4), (3 / 2, 5 / 2), (5 / 4, 11 / 4), (1, 3),
      (1 / 2, 5 / 2), (0, 2), (- 1 / 2, 3 / 2), (- 1, 1),
      (- 3 / 4, 3 / 4), (- 1 / 2, 1 / 2), (- 1 / 4, 1 / 4)]"

text \<open>The points of \<open>diamond16\<close> moved by \<open>4e9\<close> along the x-axis.\<close>

definition far_diamond16 :: "pt list" where
  "far_diamond16 = map (\<lambda>p. rpt (4 * 10 ^ 9 + fst p, snd p))
     [(0, 0), (1 / 2, 1 / 2), (1, 1), (3 / 2, 3 / 2), (2, 2),
      (7 / 4, 9 / 4), (3 / 2, 5 / 2), (5 / 4, 11 / 4), (1, 3),
      (1 / 2, 5 / 2), (0, 2), (- 1 / 2, 3 / 2), (- 1, 1),
      (- 3 / 4, 3 / 4), (- 1 / 2, 1 / 2), (- 1 / 4, 1 / 4)]"


section \<open>Predicates of the statements\<close>

text \<open>The bounding-box area of a point list over the reals, and the coordinate range
  within which the initial values \<open>1e9\<close> and \<open>-1e9\<close> of the fallback's accumulators
  never win.\<close>

definition in_range :: "pt \<Rightarrow> bool" where
  "in_range p = (\<bar>rv (fst p)\<bar> \<le> 10 ^ 9 \<and> \<bar>rv (snd p)\<bar> \<le> 10 ^ 9)"

definition true_bbox_area :: "pt list \<Rightarrow> real" where
  "true_bbox_area pts =
     (Max ((\<lambda>p. rv (snd p)) ` set pts) - Min ((\<lambda>p. rv (snd p)) ` set pts))
     * (Max ((\<lambda>p. rv (fst p)) ` set pts) - Min ((\<lambda>p. rv (fst p)) ` set pts))"


text \<open>The hull edge from \<open>a\<close> to \<open>b\<close> ends the search: its candidate is verified and
  its area passes the \<^verbatim>\<open>isnan\<close> test.\<close>

definition accepted :: "pt list \<Rightarrow> pt \<Rightarrow> pt \<Rightarrow> bool" where
  "accepted pts a b =
     (good pts (candidate pts a b) \<and> \<not> isnan (polygon_area (corners (candidate pts a b))))"


section \<open>Scalar arithmetic on constructors\<close>

lemma ld_add_eval:
  "ld_add (Fin x) (Fin y) = (if x + y = 0 then Fin 0 else Fin (x + y))"
  "ld_add (Fin x) NegZero = Fin x"
  "ld_add NegZero (Fin y) = Fin y"
  "ld_add NegZero NegZero = NegZero"
  "ld_add NaN b = NaN"
  "ld_add a NaN = NaN"
  "ld_add PInf (Fin y) = PInf" "ld_add PInf NegZero = PInf"
  "ld_add PInf PInf = PInf" "ld_add PInf NInf = NaN"
  "ld_add NInf (Fin y) = NInf" "ld_add NInf NegZero = NInf"
  "ld_add NInf NInf = NInf" "ld_add NInf PInf = NaN"
  "ld_add (Fin x) PInf = PInf" "ld_add NegZero PInf = PInf"
  "ld_add (Fin x) NInf = NInf" "ld_add NegZero NInf = NInf"
  by (simp_all add: ld_add_def)

lemma ld_mul_eval:
  "ld_mul (Fin x) (Fin y) =
     (if x * y = 0 then mkzero ((x < 0) \<noteq> (y < 0)) else Fin (x * y))"
  "ld_mul (Fin x) NegZero = mkzero (\<not> x < 0)"
  "ld_mul NegZero (Fin y) = mkzero (\<not> y < 0)"
  "ld_mul NegZero NegZero = Fin 0"
  "ld_mul NaN b = NaN"
  "ld_mul a NaN = NaN"
  "ld_mul PInf (Fin y) = (if y = 0 then NaN else mkinf (y < 0))"
  "ld_mul NInf (Fin y) = (if y = 0 then NaN else mkinf (\<not> y < 0))"
  "ld_mul (Fin x) PInf = (if x = 0 then NaN else mkinf (x < 0))"
  "ld_mul (Fin x) NInf = (if x = 0 then NaN else mkinf (\<not> x < 0))"
  "ld_mul PInf NegZero = NaN" "ld_mul NInf NegZero = NaN"
  "ld_mul NegZero PInf = NaN" "ld_mul NegZero NInf = NaN"
  "ld_mul PInf PInf = PInf" "ld_mul PInf NInf = NInf"
  "ld_mul NInf PInf = NInf" "ld_mul NInf NInf = PInf"
  by (simp_all add: ld_mul_def mkzero_def mkinf_def)

lemma ld_div_eval:
  "ld_div (Fin x) (Fin y) =
     (if y = 0 then (if x = 0 then NaN else mkinf (x < 0))
      else if x = 0 then mkzero (y < 0) else Fin (x / y))"
  "ld_div (Fin x) NegZero = (if x = 0 then NaN else mkinf (\<not> x < 0))"
  "ld_div NegZero (Fin y) = (if y = 0 then NaN else mkzero (\<not> y < 0))"
  "ld_div NegZero NegZero = NaN"
  "ld_div NaN b = NaN"
  "ld_div a NaN = NaN"
  "ld_div PInf (Fin y) = mkinf (y < 0)" "ld_div NInf (Fin y) = mkinf (\<not> y < 0)"
  "ld_div PInf NegZero = NInf" "ld_div NInf NegZero = PInf"
  "ld_div (Fin x) PInf = mkzero (x < 0)" "ld_div (Fin x) NInf = mkzero (\<not> x < 0)"
  "ld_div NegZero PInf = NegZero" "ld_div NegZero NInf = Fin 0"
  "ld_div PInf PInf = NaN" "ld_div PInf NInf = NaN"
  "ld_div NInf PInf = NaN" "ld_div NInf NInf = NaN"
  by (auto simp add: ld_div_def mkzero_def mkinf_def)

lemma ld_lt_eval:
  "ld_lt (Fin x) (Fin y) = (x < y)"
  "ld_lt (Fin x) NegZero = (x < 0)"
  "ld_lt NegZero (Fin y) = (0 < y)"
  "ld_lt NegZero NegZero = False"
  "ld_lt NaN b = False"
  "ld_lt a NaN = False"
  "ld_lt PInf b = False"
  "ld_lt a NInf = False"
  "ld_lt (Fin x) PInf = True" "ld_lt NegZero PInf = True" "ld_lt NInf PInf = True"
  "ld_lt NInf (Fin y) = True" "ld_lt NInf NegZero = True"
  by (cases a; cases b; simp add: ld_lt_def)+

lemma ld_le_eval:
  "ld_le (Fin x) (Fin y) = (x \<le> y)"
  "ld_le (Fin x) NegZero = (x \<le> 0)"
  "ld_le NegZero (Fin y) = (0 \<le> y)"
  "ld_le NegZero NegZero = True"
  "ld_le NaN b = False"
  "ld_le a NaN = False"
  "ld_le PInf (Fin y) = False" "ld_le PInf NegZero = False"
  "ld_le PInf NInf = False" "ld_le PInf PInf = True"
  "ld_le (Fin x) NInf = False" "ld_le NegZero NInf = False" "ld_le NInf NInf = True"
  "ld_le (Fin x) PInf = True" "ld_le NegZero PInf = True" "ld_le NInf PInf = True"
  "ld_le NInf (Fin y) = True" "ld_le NInf NegZero = True"
  by (cases a; cases b; simp add: ld_le_def)+

lemma upt_4: "[0..<4] = [0, 1, 2, 3]"
  by (simp add: upt_rec)

lemma corners_eval:
  "corners [l1, l2, l3, l4] =
     [intersect l1 l3, intersect l3 l4, intersect l4 l2, intersect l2 l1]"
  by (simp add: corners_def upt_4)

lemma polygon_area_4:
  "polygon_area [a, b, c, d] =
     ld_div (ld_abs
       (ld_add (ld_add (ld_add (ld_add (Fin 0)
          (ld_sub (ld_mul (fst a) (snd b)) (ld_mul (snd a) (fst b))))
          (ld_sub (ld_mul (fst b) (snd c)) (ld_mul (snd b) (fst c))))
          (ld_sub (ld_mul (fst c) (snd d)) (ld_mul (snd c) (fst d))))
          (ld_sub (ld_mul (fst d) (snd a)) (ld_mul (snd d) (fst a))))) (Fin 2)"
proof -
  have "[0..<length [a, b, c, d]] = [0, 1, 2, 3]"
    using upt_4 by simp
  then show ?thesis
    by (simp add: polygon_area_def area_step_def)
qed

text \<open>The rules that run the model on a concrete input.\<close>

lemmas ld_eval = ld_add_eval ld_sub_def ld_mul_eval ld_div_eval ld_lt_eval ld_le_eval
  mkzero_def mkinf_def std_min_def std_max_def

lemmas geo_eval = cross_def vsub_def eval_def intersect_def make_line_def make_line2_def
  pt_less_def push_hull_def proj_x_def on_line_def eps_def

lemmas solve_eval = rpt_def numeral_2_eq_2 lower_hull_def std_sort_def candidate_def
  min_proj_def max_proj_def max_icept_def good_def works_def reflect_def corners_eval
  polygon_area_4 ld_eval geo_eval Let_def

lemmas bbox_eval = rpt_def bbox_area_def bbox_def bbox_step_def ld_eval

section \<open>Negation and reflection\<close>

lemma ld_mul_minus1: "ld_mul x (Fin (- 1)) = ld_neg x"
  by (cases x) (simp_all add: ld_mul_def mkzero_def mkinf_def)

lemma ld_neg_neg: "ld_neg (ld_neg x) = x"
  by (cases x) simp_all

lemma ld_lt_neg: "ld_lt (ld_neg a) (ld_neg b) = ld_lt b a"
  by (cases a; cases b) (simp_all add: ld_lt_def)

lemma ld_add_commute: "ld_add a b = ld_add b a"
  by (cases a; cases b) (simp_all add: ld_add_def add.commute)


lemma std_min_neg: "std_min (ld_neg a) (ld_neg b) = ld_neg (std_max a b)"
  by (simp add: std_min_def std_max_def ld_lt_neg)

lemma std_max_neg: "std_max (ld_neg a) (ld_neg b) = ld_neg (std_min a b)"
  by (simp add: std_min_def std_max_def ld_lt_neg)

lemma ld_sub_neg_neg: "ld_sub (ld_neg a) (ld_neg b) = ld_sub b a"
  by (simp add: ld_sub_def ld_neg_neg ld_add_commute)

lemma reflect_neg: "reflect pts = map (\<lambda>p. (ld_neg (fst p), ld_neg (snd p))) pts"
  by (simp add: reflect_def ld_mul_minus1)

lemma reflect_reflect: "reflect (reflect pts) = pts"
  by (simp add: reflect_neg ld_neg_neg o_def)

lemma bbox_step_tuple:
  "bbox_step p (a, b, c, d) =
     (std_min a (fst p), std_max b (fst p), std_min c (snd p), std_max d (snd p))"
  by (simp add: bbox_step_def)

lemma bbox_fold_reflect:
  "fold bbox_step (reflect pts) (ld_neg b, ld_neg a, ld_neg d, ld_neg c) =
     (case fold bbox_step pts (a, b, c, d) of
        (a', b', c', d') \<Rightarrow> (ld_neg b', ld_neg a', ld_neg d', ld_neg c'))"
proof (induction pts arbitrary: a b c d)
  case Nil
  show ?case by (simp add: reflect_def)
next
  case (Cons p pts)
  have "fold bbox_step (reflect (p # pts)) (ld_neg b, ld_neg a, ld_neg d, ld_neg c) =
        fold bbox_step (reflect pts)
          (ld_neg (std_max b (fst p)), ld_neg (std_min a (fst p)),
           ld_neg (std_max d (snd p)), ld_neg (std_min c (snd p)))"
    by (simp add: reflect_neg bbox_step_tuple std_min_neg std_max_neg)
  also have "\<dots> =
      (case fold bbox_step pts
              (std_min a (fst p), std_max b (fst p), std_min c (snd p), std_max d (snd p)) of
         (a', b', c', d') \<Rightarrow> (ld_neg b', ld_neg a', ld_neg d', ld_neg c'))"
    by (rule Cons.IH)
  finally show ?case by (simp add: bbox_step_tuple)
qed

lemma bbox_reflect:
  "bbox (reflect pts) =
     (case bbox pts of (a, b, c, d) \<Rightarrow> (ld_neg b, ld_neg a, ld_neg d, ld_neg c))"
  using bbox_fold_reflect
    [of pts "Fin (- (10 ^ 9))" "Fin (10 ^ 9)" "Fin (- (10 ^ 9))" "Fin (10 ^ 9)"]
  by (simp add: bbox_def)

lemma bbox_area_reflect: "bbox_area (reflect pts) = bbox_area pts"
  by (simp add: bbox_area_def bbox_reflect ld_sub_neg_neg split: prod.splits)



lemma passes_2:
  "passes 2 pts =
     (case try_edges pts (lower_hull pts) of
        Some res \<Rightarrow> (Some res, pts)
      | None \<Rightarrow>
          (case try_edges (reflect pts) (lower_hull (reflect pts)) of
             Some res \<Rightarrow> (Some res, reflect pts)
           | None \<Rightarrow> (None, reflect (reflect pts))))"
  by (simp add: numeral_2_eq_2 split: option.splits)


section \<open>The runs on the concrete inputs\<close>

lemma flat16_passes: "passes 2 flat16 = (None, flat16)"
  by (simp add: flat16_def solve_eval cong: let_weak_cong)

lemma tri15_passes: "passes 2 tri15 = (None, tri15)"
  by (simp add: tri15_def solve_eval cong: let_weak_cong)

lemma tri15_bbox: "bbox_area tri15 = Fin 6"
  by (simp add: tri15_def bbox_eval)

lemma rect20_passes: "passes 2 rect20 = (None, rect20)"
  by (simp add: rect20_def solve_eval cong: let_weak_cong)

lemma rect20_bbox: "bbox_area rect20 = Fin 12"
  by (simp add: rect20_def bbox_eval)

section \<open>The reflected second pass\<close>



section \<open>The fallback sees the original points\<close>

text \<open>
  Claim C10. When control reaches the axis-aligned fallback (both passes accepted no
  candidate), the reflection has been applied exactly twice; negating both coordinates
  twice gives every point back, so the array the fallback reads is the input as read.
  Moreover a single reflection does not change the value
  \<open>(max_y - min_y) * (max_x - min_x)\<close> the fallback computes.
\<close>

theorem fallback_reads_original_points:
  "(fst (passes 2 pts) = None \<longrightarrow>
      snd (passes 2 pts) = reflect (reflect pts) \<and> snd (passes 2 pts) = pts)
   \<and> reflect (reflect pts) = pts
   \<and> bbox_area (reflect pts) = bbox_area pts"
  by (simp add: passes_2 reflect_reflect bbox_area_reflect split: option.splits)

theorem fallback_reads_original_points_witness:
  "fst (passes 2 flat16) = None \<and> snd (passes 2 flat16) = flat16
   \<and> reflect (reflect flat16) = flat16 \<and> bbox_area (reflect flat16) = bbox_area flat16"
  using fallback_reads_original_points [of flat16] flat16_passes by simp

section \<open>Finite scalars in the model\<close>





lemma fin_abs: "is_fin a \<Longrightarrow> is_fin (ld_abs a) \<and> rv (ld_abs a) = \<bar>rv a\<bar>"
  by (cases a) simp_all

lemma fin_lt: "is_fin a \<Longrightarrow> is_fin b \<Longrightarrow> ld_lt a b = (rv a < rv b)"
  by (cases a; cases b) (simp_all add: ld_lt_def)

lemma fin_min:
  "is_fin a \<Longrightarrow> is_fin b \<Longrightarrow> is_fin (std_min a b) \<and> rv (std_min a b) = min (rv a) (rv b)"
  by (auto simp add: std_min_def fin_lt)

lemma fin_max:
  "is_fin a \<Longrightarrow> is_fin b \<Longrightarrow> is_fin (std_max a b) \<and> rv (std_max a b) = max (rv a) (rv b)"
  by (auto simp add: std_max_def fin_lt)

section \<open>The lower hull\<close>






lemma rect20_fin: "list_all fin_pt rect20"
  by (simp add: rect20_def rpt_def fin_pt_def)


section \<open>The tolerance\<close>

lemma tri15_hull: "lower_hull tri15 = [(Fin 0, Fin 0), (Fin 2, Fin 1)]"
  by (simp add: tri15_def solve_eval cong: let_weak_cong)

lemma tiny15_hull: "lower_hull tiny15 = [(Fin 0, Fin 0), (Fin (2 / 10 ^ 8), Fin (1 / 10 ^ 8))]"
  by (simp add: tiny15_def solve_eval cong: let_weak_cong)

lemma tri15_not_good: "\<not> good tri15 (candidate tri15 (Fin 0, Fin 0) (Fin 2, Fin 1))"
  by (simp add: tri15_def solve_eval cong: let_weak_cong)

lemma tiny15_good: "good tiny15 (candidate tiny15 (Fin 0, Fin 0) (Fin (2 / 10 ^ 8), Fin (1 / 10 ^ 8)))"
  by (simp add: tiny15_def solve_eval cong: let_weak_cong)

text \<open>
  Claim C9, as stated: the tolerance of the point-on-line test is relative to the scale
  of the input coordinates. It is not: \<open>tiny15\<close> is \<open>tri15\<close> scaled by \<open>1e-8\<close>, the
  first hull edge of each is the edge from the first to the second point, and the
  candidate of that edge is rejected for \<open>tri15\<close> and verified for \<open>tiny15\<close>.
\<close>

theorem tolerance_scale_counterexample:
  "lower_hull tri15 = [(Fin 0, Fin 0), (Fin 2, Fin 1)]
   \<and> \<not> good tri15 (candidate tri15 (Fin 0, Fin 0) (Fin 2, Fin 1))
   \<and> lower_hull tiny15 = [(Fin 0, Fin 0), (Fin (2 / 10 ^ 8), Fin (1 / 10 ^ 8))]
   \<and> good tiny15 (candidate tiny15 (Fin 0, Fin 0) (Fin (2 / 10 ^ 8), Fin (1 / 10 ^ 8)))"
  using tri15_hull tri15_not_good tiny15_hull tiny15_good by simp

text \<open>
  Claim C9, amended: the tolerance is a fixed absolute constant, the same for every
  input and independent of the scale of the coordinates: \<open>eps\<close> is the \<^verbatim>\<open>double\<close> literal
  \<^verbatim>\<open>1e-7\<close>, that is \<open>944473296573929 / 2\<^sup>7\<^sup>3\<close>. A point \<open>(x, y)\<close> passes the test for a
  line \<open>l\<close> exactly when the scalar \<open>eval(l, x) - y\<close> that the program computes is
  finite and its absolute value is less than that constant.
\<close>

theorem tolerance_is_absolute:
  "eps = Fin (944473296573929 / 2 ^ 73)
   \<and> on_line p l =
       ld_lt (ld_abs (ld_sub (eval l (fst p)) (snd p))) (Fin (944473296573929 / 2 ^ 73))
   \<and> (is_fin (ld_sub (eval l (fst p)) (snd p)) \<longrightarrow>
        on_line p l = (\<bar>rv (ld_sub (eval l (fst p)) (snd p))\<bar> < 944473296573929 / 2 ^ 73))
   \<and> (\<not> is_fin (ld_sub (eval l (fst p)) (snd p)) \<longrightarrow> \<not> on_line p l)"
proof -
  let ?d = "ld_sub (eval l (fst p)) (snd p)"
  have "on_line p l = (\<bar>rv ?d\<bar> < 944473296573929 / 2 ^ 73)" if "is_fin ?d"
    using that fin_abs [of ?d] fin_lt [of "ld_abs ?d" eps]
    by (simp add: on_line_def) (simp add: eps_def)
  moreover have "\<not> on_line p l" if "\<not> is_fin ?d"
    using that by (cases ?d) (simp_all add: on_line_def eps_def ld_lt_def)
  ultimately show ?thesis
    by (auto simp add: on_line_def eps_def)
qed

theorem tolerance_is_absolute_witness:
  "is_fin (ld_sub (eval (Fin 1, Fin 0) (Fin (10 ^ 9))) (Fin (10 ^ 9 + 1)))
   \<and> \<not> on_line (Fin (10 ^ 9), Fin (10 ^ 9 + 1)) (Fin 1, Fin 0)
   \<and> is_fin (ld_sub (eval (Fin 1, Fin 0) (Fin (10 ^ 9))) (Fin (10 ^ 9 + 1 / 2 ^ 30)))
   \<and> on_line (Fin (10 ^ 9), Fin (10 ^ 9 + 1 / 2 ^ 30)) (Fin 1, Fin 0)
   \<and> \<not> is_fin (ld_sub (eval (PInf, Fin 0) (Fin 1)) (Fin 0))
   \<and> \<not> on_line (Fin 1, Fin 0) (PInf, Fin 0)"
proof -
  let ?l = "(Fin 1, Fin 0)"
  let ?p = "(Fin (10 ^ 9), Fin (10 ^ 9 + 1))"
  let ?q = "(Fin (10 ^ 9), Fin (10 ^ 9 + 1 / 2 ^ 30))"
  have dp: "ld_sub (eval ?l (fst ?p)) (snd ?p) = Fin (- 1)"
    by (simp add: eval_def ld_eval)
  have dq: "ld_sub (eval ?l (fst ?q)) (snd ?q) = Fin (- (1 / 2 ^ 30))"
    by (simp add: eval_def ld_eval)
  have dv: "ld_sub (eval (PInf, Fin 0) (fst (Fin 1, Fin 0))) (snd (Fin 1, Fin 0)) = PInf"
    by (simp add: eval_def ld_eval)
  have "is_fin (ld_sub (eval ?l (fst ?p)) (snd ?p)) \<longrightarrow>
      on_line ?p ?l = (\<bar>rv (ld_sub (eval ?l (fst ?p)) (snd ?p))\<bar> < 944473296573929 / 2 ^ 73)"
    using tolerance_is_absolute [of ?p ?l] by blast
  then have 1: "\<not> on_line ?p ?l"
    by (simp only: dp) simp
  have "is_fin (ld_sub (eval ?l (fst ?q)) (snd ?q)) \<longrightarrow>
      on_line ?q ?l = (\<bar>rv (ld_sub (eval ?l (fst ?q)) (snd ?q))\<bar> < 944473296573929 / 2 ^ 73)"
    using tolerance_is_absolute [of ?q ?l] by blast
  then have 2: "on_line ?q ?l"
    by (simp only: dq) simp
  have "\<not> is_fin (ld_sub (eval (PInf, Fin 0) (fst (Fin 1, Fin 0))) (snd (Fin 1, Fin 0))) \<longrightarrow>
      \<not> on_line (Fin 1, Fin 0) (PInf, Fin 0)"
    using tolerance_is_absolute [of "(Fin 1, Fin 0)" "(PInf, Fin 0)"] by blast
  then have 3: "\<not> on_line (Fin 1, Fin 0) (PInf, Fin 0)"
    by (simp only: dv) simp
  show ?thesis
    using 1 2 3 dp dq dv by simp
qed

section \<open>The accumulator loops\<close>

lemma fold_min_cases:
  "fold (\<lambda>p acc. std_min acc (f p)) pts a = a
   \<or> (\<exists>p\<in>set pts. fold (\<lambda>p acc. std_min acc (f p)) pts a = f p)"
proof (induction pts arbitrary: a)
  case Nil
  show ?case by simp
next
  case (Cons q pts)
  show ?case
    using Cons.IH [of "std_min a (f q)"] by (auto simp add: std_min_def)
qed

lemma fold_max_cases:
  "fold (\<lambda>p acc. std_max acc (f p)) pts a = a
   \<or> (\<exists>p\<in>set pts. fold (\<lambda>p acc. std_max acc (f p)) pts a = f p)"
proof (induction pts arbitrary: a)
  case Nil
  show ?case by simp
next
  case (Cons q pts)
  show ?case
    using Cons.IH [of "std_max a (f q)"] by (auto simp add: std_max_def)
qed

lemma fold_min_fin:
  assumes "\<forall>p\<in>set pts. is_fin (f p)" "is_fin a"
  shows "is_fin (fold (\<lambda>p acc. std_min acc (f p)) pts a)
     \<and> rv (fold (\<lambda>p acc. std_min acc (f p)) pts a) \<le> rv a
     \<and> (\<forall>p\<in>set pts. rv (fold (\<lambda>p acc. std_min acc (f p)) pts a) \<le> rv (f p))"
  using assms
proof (induction pts arbitrary: a)
  case Nil
  then show ?case by simp
next
  case (Cons q pts)
  have s: "is_fin (std_min a (f q))" "rv (std_min a (f q)) = min (rv a) (rv (f q))"
    using Cons.prems by (simp_all add: fin_min)
  show ?case
    using Cons.IH [of "std_min a (f q)"] Cons.prems s by auto
qed

lemma fold_max_fin:
  assumes "\<forall>p\<in>set pts. is_fin (f p)" "is_fin a"
  shows "is_fin (fold (\<lambda>p acc. std_max acc (f p)) pts a)
     \<and> rv a \<le> rv (fold (\<lambda>p acc. std_max acc (f p)) pts a)
     \<and> (\<forall>p\<in>set pts. rv (f p) \<le> rv (fold (\<lambda>p acc. std_max acc (f p)) pts a))"
  using assms
proof (induction pts arbitrary: a)
  case Nil
  then show ?case by simp
next
  case (Cons q pts)
  have s: "is_fin (std_max a (f q))" "rv (std_max a (f q)) = max (rv a) (rv (f q))"
    using Cons.prems by (simp_all add: fin_max)
  show ?case
    using Cons.IH [of "std_max a (f q)"] Cons.prems s by auto
qed

lemma fin_nonzero_eq: "is_fin a \<Longrightarrow> rv a = r \<Longrightarrow> r \<noteq> 0 \<Longrightarrow> a = Fin r"
  by (cases a) auto

lemma fold_min_value:
  assumes fin: "\<forall>p\<in>set pts. is_fin (f p)" and a: "is_fin a"
  shows "rv (fold (\<lambda>p acc. std_min acc (f p)) pts a) =
           Min (insert (rv a) ((\<lambda>p. rv (f p)) ` set pts))"
proof -
  let ?r = "fold (\<lambda>p acc. std_min acc (f p)) pts a"
  have "rv ?r \<in> insert (rv a) ((\<lambda>p. rv (f p)) ` set pts)"
    using fold_min_cases [of f pts a] by auto
  moreover have "\<forall>y\<in>insert (rv a) ((\<lambda>p. rv (f p)) ` set pts). rv ?r \<le> y"
    using fold_min_fin [OF fin a] by auto
  ultimately show ?thesis
    by (intro Min_eqI [symmetric]) auto
qed

lemma fold_max_value:
  assumes fin: "\<forall>p\<in>set pts. is_fin (f p)" and a: "is_fin a"
  shows "rv (fold (\<lambda>p acc. std_max acc (f p)) pts a) =
           Max (insert (rv a) ((\<lambda>p. rv (f p)) ` set pts))"
proof -
  let ?r = "fold (\<lambda>p acc. std_max acc (f p)) pts a"
  have "rv ?r \<in> insert (rv a) ((\<lambda>p. rv (f p)) ` set pts)"
    using fold_max_cases [of f pts a] by auto
  moreover have "\<forall>y\<in>insert (rv a) ((\<lambda>p. rv (f p)) ` set pts). y \<le> rv ?r"
    using fold_max_fin [OF fin a] by auto
  ultimately show ?thesis
    by (intro Max_eqI [symmetric]) auto
qed

lemma fin_self: "is_fin a \<Longrightarrow> rv a \<noteq> 0 \<Longrightarrow> a = Fin (rv a)"
  by (cases a) auto

lemma fold_min_attained:
  assumes fin: "\<forall>p\<in>set pts. is_fin (f p)" and a: "is_fin a" "rv a \<noteq> 0"
    and ex: "\<exists>q\<in>set pts. rv (f q) \<le> rv a"
  shows "\<exists>p\<in>set pts. fold (\<lambda>p acc. std_min acc (f p)) pts a = f p
            \<and> (\<forall>q\<in>set pts. rv (f p) \<le> rv (f q))"
proof -
  let ?r = "fold (\<lambda>p acc. std_min acc (f p)) pts a"
  have low: "\<forall>q\<in>set pts. rv ?r \<le> rv (f q)"
    using fold_min_fin [OF fin a(1)] by simp
  consider "?r = a" | "\<exists>p\<in>set pts. ?r = f p"
    using fold_min_cases [of f pts a] by blast
  then show ?thesis
  proof cases
    case 1
    obtain q where q: "q \<in> set pts" "rv (f q) \<le> rv a"
      using ex by blast
    have "rv (f q) = rv a"
      using q low 1 by fastforce
    then have "f q = a"
      using fin q(1) a fin_self [of "f q"] fin_self [of a] by simp
    then show ?thesis
      using q(1) low 1 by auto
  next
    case 2
    then show ?thesis
      using low by auto
  qed
qed

lemma fold_max_attained:
  assumes fin: "\<forall>p\<in>set pts. is_fin (f p)" and a: "is_fin a" "rv a \<noteq> 0"
    and ex: "\<exists>q\<in>set pts. rv a \<le> rv (f q)"
  shows "\<exists>p\<in>set pts. fold (\<lambda>p acc. std_max acc (f p)) pts a = f p
            \<and> (\<forall>q\<in>set pts. rv (f q) \<le> rv (f p))"
proof -
  let ?r = "fold (\<lambda>p acc. std_max acc (f p)) pts a"
  have high: "\<forall>q\<in>set pts. rv (f q) \<le> rv ?r"
    using fold_max_fin [OF fin a(1)] by simp
  consider "?r = a" | "\<exists>p\<in>set pts. ?r = f p"
    using fold_max_cases [of f pts a] by blast
  then show ?thesis
  proof cases
    case 1
    obtain q where q: "q \<in> set pts" "rv a \<le> rv (f q)"
      using ex by blast
    have "rv (f q) = rv a"
      using q high 1 by fastforce
    then have "f q = a"
      using fin q(1) a fin_self [of "f q"] fin_self [of a] by simp
    then show ?thesis
      using q(1) high 1 by auto
  next
    case 2
    then show ?thesis
      using high by auto
  qed
qed

section \<open>The axis-aligned fallback\<close>

lemma ld_mul_commute: "ld_mul a b = ld_mul b a"
  by (cases a; cases b) (auto simp add: ld_mul_def mult.commute)

lemma bbox_split:
  "fold bbox_step pts (a, b, c, d) =
     (fold (\<lambda>p acc. std_min acc (fst p)) pts a, fold (\<lambda>p acc. std_max acc (fst p)) pts b,
      fold (\<lambda>p acc. std_min acc (snd p)) pts c, fold (\<lambda>p acc. std_max acc (snd p)) pts d)"
  by (induction pts arbitrary: a b c d) (simp_all add: bbox_step_tuple)

lemma bbox_folds:
  "bbox pts =
     (fold (\<lambda>p acc. std_min acc (fst p)) pts (Fin (10 ^ 9)),
      fold (\<lambda>p acc. std_max acc (fst p)) pts (Fin (- (10 ^ 9))),
      fold (\<lambda>p acc. std_min acc (snd p)) pts (Fin (10 ^ 9)),
      fold (\<lambda>p acc. std_max acc (snd p)) pts (Fin (- (10 ^ 9))))"
  by (simp only: bbox_def bbox_split)

lemma first_min: "is_fin x \<Longrightarrow> rv x \<le> 10 ^ 9 \<Longrightarrow> std_min (Fin (10 ^ 9)) x = x"
  using fin_nonzero_eq [of x "10 ^ 9"] by (auto simp add: std_min_def fin_lt)

lemma first_max: "is_fin x \<Longrightarrow> - (10 ^ 9) \<le> rv x \<Longrightarrow> std_max (Fin (- (10 ^ 9))) x = x"
  using fin_nonzero_eq [of x "- (10 ^ 9)"] by (auto simp add: std_max_def fin_lt)

text \<open>Within the range the initial values never win: the accumulators end as coordinates
  of input points, the least and the greatest.\<close>

lemma span_in_range:
  assumes ne: "pts \<noteq> []"
    and fin: "\<forall>p\<in>set pts. is_fin (f p)"
    and rng: "\<forall>p\<in>set pts. \<bar>rv (f p)\<bar> \<le> 10 ^ 9"
  shows "fold (\<lambda>p acc. std_min acc (f p)) pts (Fin (10 ^ 9)) \<in> f ` set pts"
    and "fold (\<lambda>p acc. std_max acc (f p)) pts (Fin (- (10 ^ 9))) \<in> f ` set pts"
    and "rv (fold (\<lambda>p acc. std_min acc (f p)) pts (Fin (10 ^ 9))) = Min ((\<lambda>p. rv (f p)) ` set pts)"
    and "rv (fold (\<lambda>p acc. std_max acc (f p)) pts (Fin (- (10 ^ 9)))) = Max ((\<lambda>p. rv (f p)) ` set pts)"
proof -
  obtain q rest where pts: "pts = q # rest"
    using ne by (cases pts) auto
  let ?mn = "fold (\<lambda>p acc. std_min acc (f p)) rest (f q)"
  let ?mx = "fold (\<lambda>p acc. std_max acc (f p)) rest (f q)"
  let ?A = "(\<lambda>p. rv (f p)) ` set pts"
  have fq: "is_fin (f q)" "\<bar>rv (f q)\<bar> \<le> 10 ^ 9"
    using fin rng pts by simp_all
  have frest: "\<forall>p\<in>set rest. is_fin (f p)"
    using fin pts by simp
  have "std_min (Fin (10 ^ 9)) (f q) = f q"
    by (rule first_min) (use fq in auto)
  then have mn: "fold (\<lambda>p acc. std_min acc (f p)) pts (Fin (10 ^ 9)) = ?mn"
    by (simp add: pts)
  have "std_max (Fin (- (10 ^ 9))) (f q) = f q"
    by (rule first_max) (use fq in auto)
  then have mx: "fold (\<lambda>p acc. std_max acc (f p)) pts (Fin (- (10 ^ 9))) = ?mx"
    by (simp add: pts)
  have mnf: "is_fin ?mn" "rv ?mn \<le> rv (f q)" "\<forall>p\<in>set rest. rv ?mn \<le> rv (f p)"
    using fold_min_fin [of rest f "f q"] frest fq by simp_all
  have mxf: "is_fin ?mx" "rv (f q) \<le> rv ?mx" "\<forall>p\<in>set rest. rv (f p) \<le> rv ?mx"
    using fold_max_fin [of rest f "f q"] frest fq by simp_all
  have mn_in: "?mn \<in> f ` set pts"
    using fold_min_cases [of f rest "f q"] pts by auto
  have mx_in: "?mx \<in> f ` set pts"
    using fold_max_cases [of f rest "f q"] pts by auto
  have mn_in': "rv ?mn \<in> ?A"
    using mn_in by auto
  have mx_in': "rv ?mx \<in> ?A"
    using mx_in by auto
  have "Min ?A = rv ?mn"
    by (rule Min_eqI) (use mnf mn_in' pts in auto)
  moreover have "Max ?A = rv ?mx"
    by (rule Max_eqI) (use mxf mx_in' pts in auto)
  ultimately have mm: "Min ?A = rv ?mn" "Max ?A = rv ?mx"
    by simp_all
  show "fold (\<lambda>p acc. std_min acc (f p)) pts (Fin (10 ^ 9)) \<in> f ` set pts"
    by (simp only: mn) (rule mn_in)
  show "fold (\<lambda>p acc. std_max acc (f p)) pts (Fin (- (10 ^ 9))) \<in> f ` set pts"
    by (simp only: mx) (rule mx_in)
  show "rv (fold (\<lambda>p acc. std_min acc (f p)) pts (Fin (10 ^ 9))) = Min ?A"
    by (simp only: mn mm)
  show "rv (fold (\<lambda>p acc. std_max acc (f p)) pts (Fin (- (10 ^ 9)))) = Max ?A"
    by (simp only: mx mm)
qed

lemma bbox_sentinels:
  assumes "list_all fin_pt pts" "bbox pts = (mnx, mxx, mny, mxy)"
  shows "is_fin mnx \<and> is_fin mxx \<and> is_fin mny \<and> is_fin mxy
     \<and> rv mnx = Min (insert (10 ^ 9) ((\<lambda>p. rv (fst p)) ` set pts))
     \<and> rv mxx = Max (insert (- (10 ^ 9)) ((\<lambda>p. rv (fst p)) ` set pts))
     \<and> rv mny = Min (insert (10 ^ 9) ((\<lambda>p. rv (snd p)) ` set pts))
     \<and> rv mxy = Max (insert (- (10 ^ 9)) ((\<lambda>p. rv (snd p)) ` set pts))"
proof -
  have fx: "\<forall>p\<in>set pts. is_fin (fst p)" and fy: "\<forall>p\<in>set pts. is_fin (snd p)"
    using assms(1) by (auto simp add: list_all_iff fin_pt_def)
  have e: "mnx = fold (\<lambda>p acc. std_min acc (fst p)) pts (Fin (10 ^ 9))"
    "mxx = fold (\<lambda>p acc. std_max acc (fst p)) pts (Fin (- (10 ^ 9)))"
    "mny = fold (\<lambda>p acc. std_min acc (snd p)) pts (Fin (10 ^ 9))"
    "mxy = fold (\<lambda>p acc. std_max acc (snd p)) pts (Fin (- (10 ^ 9)))"
    using assms(2) by (simp_all only: bbox_folds prod.inject)
  have f: "is_fin mnx" "is_fin mxx" "is_fin mny" "is_fin mxy"
    using fold_min_fin [OF fx, of "Fin (10 ^ 9)"] fold_max_fin [OF fx, of "Fin (- (10 ^ 9))"]
      fold_min_fin [OF fy, of "Fin (10 ^ 9)"] fold_max_fin [OF fy, of "Fin (- (10 ^ 9))"]
    by (simp_all only: e is_fin.simps simp_thms)
  have v: "rv mnx = Min (insert (10 ^ 9) ((\<lambda>p. rv (fst p)) ` set pts))"
    "rv mxx = Max (insert (- (10 ^ 9)) ((\<lambda>p. rv (fst p)) ` set pts))"
    "rv mny = Min (insert (10 ^ 9) ((\<lambda>p. rv (snd p)) ` set pts))"
    "rv mxy = Max (insert (- (10 ^ 9)) ((\<lambda>p. rv (snd p)) ` set pts))"
    using fold_min_value [OF fx, of "Fin (10 ^ 9)"] fold_max_value [OF fx, of "Fin (- (10 ^ 9))"]
      fold_min_value [OF fy, of "Fin (10 ^ 9)"] fold_max_value [OF fy, of "Fin (- (10 ^ 9))"]
    by (simp_all only: e is_fin.simps rv.simps simp_thms)
  show ?thesis
    using f v by blast
qed

lemma bbox_in_range:
  assumes "pts \<noteq> []" "list_all fin_pt pts" "list_all in_range pts"
    and "bbox pts = (mnx, mxx, mny, mxy)"
  shows "mnx \<in> fst ` set pts \<and> mxx \<in> fst ` set pts
     \<and> mny \<in> snd ` set pts \<and> mxy \<in> snd ` set pts
     \<and> rv mnx = Min ((\<lambda>p. rv (fst p)) ` set pts)
     \<and> rv mxx = Max ((\<lambda>p. rv (fst p)) ` set pts)
     \<and> rv mny = Min ((\<lambda>p. rv (snd p)) ` set pts)
     \<and> rv mxy = Max ((\<lambda>p. rv (snd p)) ` set pts)"
proof -
  have fx: "\<forall>p\<in>set pts. is_fin (fst p)" and fy: "\<forall>p\<in>set pts. is_fin (snd p)"
    using assms(2) by (auto simp add: list_all_iff fin_pt_def)
  have rx: "\<forall>p\<in>set pts. \<bar>rv (fst p)\<bar> \<le> 10 ^ 9" and ry: "\<forall>p\<in>set pts. \<bar>rv (snd p)\<bar> \<le> 10 ^ 9"
    using assms(3) by (auto simp add: list_all_iff in_range_def)
  have e: "mnx = fold (\<lambda>p acc. std_min acc (fst p)) pts (Fin (10 ^ 9))"
    "mxx = fold (\<lambda>p acc. std_max acc (fst p)) pts (Fin (- (10 ^ 9)))"
    "mny = fold (\<lambda>p acc. std_min acc (snd p)) pts (Fin (10 ^ 9))"
    "mxy = fold (\<lambda>p acc. std_max acc (snd p)) pts (Fin (- (10 ^ 9)))"
    using assms(4) by (simp_all only: bbox_folds prod.inject)
  note sx = span_in_range [of pts fst, OF assms(1) fx rx]
  note sy = span_in_range [of pts snd, OF assms(1) fy ry]
  show ?thesis
    using sx sy by (simp only: e simp_thms)
qed

lemma far16_passes: "passes 2 far16 = (None, far16)"
  by (simp add: far16_def solve_eval cong: let_weak_cong)

lemma far16_bbox: "bbox_area far16 = Fin ((10 ^ 9 + 3) * (10 ^ 9 + 7))"
  by (simp add: far16_def bbox_eval)

lemma far16_true: "true_bbox_area far16 = 21"
  by (simp add: far16_def rpt_def true_bbox_area_def)

lemma corners43_bbox: "bbox_area corners43 = Fin 12"
  by (simp add: corners43_def bbox_eval)

lemma rect20_range: "list_all in_range rect20"
  by (simp add: rect20_def rpt_def in_range_def)

lemma rect20_accumulators: "bbox rect20 = (Fin 0, Fin 4, Fin 0, Fin 3)"
  by (simp add: rect20_def rpt_def bbox_def bbox_step_def ld_eval)

text \<open>
  Claim C7, as stated: the fallback reports exactly \<open>(max_x - min_x) * (max_y - min_y)\<close>
  with the minima and maxima taken over the input points. The accumulators start at
  \<open>1e9\<close> and \<open>-1e9\<close>, which take part in the minima and maxima: on the sixteen
  boundary points \<open>far16\<close> of the 7 by 3 rectangle at \<open>(2e9, 2e9)\<close> both passes accept
  nothing and the fallback prints \<open>(1e9 + 3) * (1e9 + 7)\<close>, while the bounding box of
  the points has area 21.
\<close>

theorem fallback_sentinel_counterexample:
  "fst (passes 2 far16) = None
   \<and> solve far16 = Fin ((10 ^ 9 + 3) * (10 ^ 9 + 7))
   \<and> true_bbox_area far16 = 21
   \<and> bbox_area far16 \<noteq> Fin (true_bbox_area far16)"
  by (simp add: solve_def far16_passes far16_bbox far16_true)

text \<open>
  Claim C7, amended: the fallback reports the product
  \<open>(max_x - min_x) * (max_y - min_y)\<close> as the program computes it (two subtractions and
  one multiplication of scalars), where for finite input points \<open>min_x\<close> and \<open>min_y\<close>
  are the least of \<open>1e9\<close> and the coordinates of the input points, and \<open>max_x\<close> and
  \<open>max_y\<close> the greatest of \<open>-1e9\<close> and the coordinates, the initial values of the
  accumulators. For at least one input point and all coordinates within
  \<open>[-1e9, 1e9]\<close> the four accumulators are coordinates of input points, the least and
  the greatest ones over all input points. For the corners (0,0), (4,0), (4,3), (0,3),
  and for the twenty boundary points \<open>rect20\<close> of that rectangle through the whole of
  \<open>solve\<close>, the value is 12.
\<close>

theorem fallback_is_product_of_spans:
  "(bbox pts = (mnx, mxx, mny, mxy) \<longrightarrow>
      bbox_area pts = ld_mul (ld_sub mxx mnx) (ld_sub mxy mny))
   \<and> (list_all fin_pt pts \<and> bbox pts = (mnx, mxx, mny, mxy) \<longrightarrow>
        is_fin mnx \<and> is_fin mxx \<and> is_fin mny \<and> is_fin mxy
        \<and> rv mnx = Min (insert (10 ^ 9) ((\<lambda>p. rv (fst p)) ` set pts))
        \<and> rv mxx = Max (insert (- (10 ^ 9)) ((\<lambda>p. rv (fst p)) ` set pts))
        \<and> rv mny = Min (insert (10 ^ 9) ((\<lambda>p. rv (snd p)) ` set pts))
        \<and> rv mxy = Max (insert (- (10 ^ 9)) ((\<lambda>p. rv (snd p)) ` set pts)))
   \<and> (pts \<noteq> [] \<and> list_all fin_pt pts \<and> list_all in_range pts
        \<and> bbox pts = (mnx, mxx, mny, mxy) \<longrightarrow>
        mnx \<in> fst ` set pts \<and> mxx \<in> fst ` set pts
        \<and> mny \<in> snd ` set pts \<and> mxy \<in> snd ` set pts
        \<and> rv mnx = Min ((\<lambda>p. rv (fst p)) ` set pts)
        \<and> rv mxx = Max ((\<lambda>p. rv (fst p)) ` set pts)
        \<and> rv mny = Min ((\<lambda>p. rv (snd p)) ` set pts)
        \<and> rv mxy = Max ((\<lambda>p. rv (snd p)) ` set pts))
   \<and> bbox_area corners43 = Fin 12
   \<and> fst (passes 2 rect20) = None \<and> solve rect20 = Fin 12"
proof -
  have 1: "bbox pts = (mnx, mxx, mny, mxy) \<longrightarrow>
      bbox_area pts = ld_mul (ld_sub mxx mnx) (ld_sub mxy mny)"
    by (simp add: bbox_area_def ld_mul_commute)
  have 2: "list_all fin_pt pts \<and> bbox pts = (mnx, mxx, mny, mxy) \<longrightarrow>
        is_fin mnx \<and> is_fin mxx \<and> is_fin mny \<and> is_fin mxy
        \<and> rv mnx = Min (insert (10 ^ 9) ((\<lambda>p. rv (fst p)) ` set pts))
        \<and> rv mxx = Max (insert (- (10 ^ 9)) ((\<lambda>p. rv (fst p)) ` set pts))
        \<and> rv mny = Min (insert (10 ^ 9) ((\<lambda>p. rv (snd p)) ` set pts))
        \<and> rv mxy = Max (insert (- (10 ^ 9)) ((\<lambda>p. rv (snd p)) ` set pts))"
    using bbox_sentinels [of pts mnx mxx mny mxy] by blast
  have 3: "pts \<noteq> [] \<and> list_all fin_pt pts \<and> list_all in_range pts
        \<and> bbox pts = (mnx, mxx, mny, mxy) \<longrightarrow>
        mnx \<in> fst ` set pts \<and> mxx \<in> fst ` set pts
        \<and> mny \<in> snd ` set pts \<and> mxy \<in> snd ` set pts
        \<and> rv mnx = Min ((\<lambda>p. rv (fst p)) ` set pts)
        \<and> rv mxx = Max ((\<lambda>p. rv (fst p)) ` set pts)
        \<and> rv mny = Min ((\<lambda>p. rv (snd p)) ` set pts)
        \<and> rv mxy = Max ((\<lambda>p. rv (snd p)) ` set pts)"
    using bbox_in_range [of pts mnx mxx mny mxy] by blast
  have 4: "fst (passes 2 rect20) = None" "solve rect20 = Fin 12"
    by (simp_all add: solve_def rect20_passes rect20_bbox)
  from 1 2 3 corners43_bbox 4 show ?thesis
    by (intro conjI)
qed

theorem fallback_is_product_of_spans_witness:
  "rect20 \<noteq> [] \<and> list_all fin_pt rect20 \<and> list_all in_range rect20
   \<and> bbox rect20 = (Fin 0, Fin 4, Fin 0, Fin 3)
   \<and> bbox_area rect20 = ld_mul (ld_sub (Fin 4) (Fin 0)) (ld_sub (Fin 3) (Fin 0))
   \<and> Fin 0 \<in> fst ` set rect20 \<and> Fin 4 \<in> fst ` set rect20
   \<and> rv (Fin 0) = Min ((\<lambda>p. rv (fst p)) ` set rect20)
   \<and> rv (Fin 4) = Max ((\<lambda>p. rv (fst p)) ` set rect20)
   \<and> rv (Fin 0) = Min ((\<lambda>p. rv (snd p)) ` set rect20)
   \<and> rv (Fin 3) = Max ((\<lambda>p. rv (snd p)) ` set rect20)
   \<and> rv (Fin 0) = Min (insert (10 ^ 9) ((\<lambda>p. rv (fst p)) ` set rect20))
   \<and> bbox_area rect20 = Fin 12"
proof -
  have h: "rect20 \<noteq> []" "list_all fin_pt rect20" "list_all in_range rect20"
    using rect20_fin rect20_range by (simp_all add: rect20_def)
  note t = fallback_is_product_of_spans [of rect20 "Fin 0" "Fin 4" "Fin 0" "Fin 3"]
  have 1: "bbox_area rect20 = ld_mul (ld_sub (Fin 4) (Fin 0)) (ld_sub (Fin 3) (Fin 0))"
    using t rect20_accumulators by blast
  have 2: "Fin 0 \<in> fst ` set rect20 \<and> Fin 4 \<in> fst ` set rect20
     \<and> rv (Fin 0) = Min ((\<lambda>p. rv (fst p)) ` set rect20)
     \<and> rv (Fin 4) = Max ((\<lambda>p. rv (fst p)) ` set rect20)
     \<and> rv (Fin 0) = Min ((\<lambda>p. rv (snd p)) ` set rect20)
     \<and> rv (Fin 3) = Max ((\<lambda>p. rv (snd p)) ` set rect20)"
    using t h rect20_accumulators by blast
  have 3: "rv (Fin 0) = Min (insert (10 ^ 9) ((\<lambda>p. rv (fst p)) ` set rect20))"
    using t h(2) rect20_accumulators by blast
  show ?thesis
    using h rect20_accumulators 1 2 3 rect20_bbox by blast
qed

section \<open>Horizontal and vertical edges\<close>

lemma candidate_eq:
  "candidate pts a b =
     [make_line2 a b,
      make_line (min_proj (make_line2 a b) (ld_div (Fin (- 1)) (fst (make_line2 a b))) pts,
                 eval (make_line2 a b)
                   (min_proj (make_line2 a b) (ld_div (Fin (- 1)) (fst (make_line2 a b))) pts))
        (ld_div (Fin (- 1)) (fst (make_line2 a b))),
      make_line (max_proj (make_line2 a b) (ld_div (Fin (- 1)) (fst (make_line2 a b))) pts,
                 eval (make_line2 a b)
                   (max_proj (make_line2 a b) (ld_div (Fin (- 1)) (fst (make_line2 a b))) pts))
        (ld_div (Fin (- 1)) (fst (make_line2 a b))),
      (fst (make_line2 a b), max_icept (fst (make_line2 a b)) pts)]"
  by (simp add: candidate_def Let_def)








lemma std_min_nan: "std_min acc NaN = acc"
  by (simp add: std_min_def ld_lt_def)














section \<open>The edge loop\<close>

lemma abs_half_sign:
  "\<not> ld_lt (ld_div (ld_abs s) (Fin 2)) (Fin 0)"
  "isnan (ld_div (ld_abs s) (Fin 2)) \<or> ld_le (Fin 0) (ld_div (ld_abs s) (Fin 2))"
  by (cases s; simp add: ld_div_def ld_lt_def ld_le_def mkzero_def mkinf_def)+

lemma polygon_area_sign:
  "\<not> ld_lt (polygon_area locs) (Fin 0)"
  "isnan (polygon_area locs) \<or> ld_le (Fin 0) (polygon_area locs)"
  by (simp_all add: polygon_area_def abs_half_sign)

lemma try_edges_step:
  "try_edges pts (a # b # hl) =
     (if accepted pts a b then Some (polygon_area (corners (candidate pts a b)))
      else try_edges pts (b # hl))"
  by (simp add: accepted_def Let_def)

lemma try_edges_Some:
  "try_edges pts hl = Some res \<Longrightarrow>
     \<exists>i. Suc i < length hl \<and> accepted pts (hl ! i) (hl ! Suc i)
        \<and> res = polygon_area (corners (candidate pts (hl ! i) (hl ! Suc i)))
        \<and> (\<forall>j<i. \<not> accepted pts (hl ! j) (hl ! Suc j))"
proof (induction pts hl rule: try_edges.induct)
  case (1 pts a b hl)
  show ?case
  proof (cases "accepted pts a b")
    case True
    then have "res = polygon_area (corners (candidate pts a b))"
      using "1.prems" by (simp only: try_edges_step) simp
    then show ?thesis
      using True by (intro exI [of _ 0]) simp
  next
    case False
    then have "try_edges pts (b # hl) = Some res"
      using "1.prems" by (simp only: try_edges_step) simp
    moreover have "\<not> \<not> good pts (candidate pts a b) \<Longrightarrow>
        isnan (polygon_area (corners (candidate pts a b)))"
      using False by (simp add: accepted_def)
    ultimately obtain i where i: "Suc i < length (b # hl)"
      "accepted pts ((b # hl) ! i) ((b # hl) ! Suc i)"
      "res = polygon_area (corners (candidate pts ((b # hl) ! i) ((b # hl) ! Suc i)))"
      "\<forall>j<i. \<not> accepted pts ((b # hl) ! j) ((b # hl) ! Suc j)"
      using "1.IH" by (cases "good pts (candidate pts a b)") (auto simp add: Let_def)
    have "\<forall>j<Suc i. \<not> accepted pts ((a # b # hl) ! j) ((a # b # hl) ! Suc j)"
      using False i(4) by (auto simp add: less_Suc_eq_0_disj)
    then show ?thesis
      using i(1-3) by (intro exI [of _ "Suc i"]) simp
  qed
qed simp_all

lemma try_edges_None:
  "(try_edges pts hl = None) = (\<forall>i. Suc i < length hl \<longrightarrow> \<not> accepted pts (hl ! i) (hl ! Suc i))"
proof (induction hl rule: induct_list012)
  case 1
  show ?case by simp
next
  case (2 x)
  show ?case by simp
next
  case (3 a b hl)
  have "(\<forall>i. Suc i < length (a # b # hl) \<longrightarrow> \<not> accepted pts ((a # b # hl) ! i) ((a # b # hl) ! Suc i))
      = (\<not> accepted pts a b \<and>
         (\<forall>i. Suc i < length (b # hl) \<longrightarrow> \<not> accepted pts ((b # hl) ! i) ((b # hl) ! Suc i)))"
    by (auto simp add: less_Suc_eq_0_disj all_conj_distrib nth_Cons split: nat.splits)
  then show ?case
    using "3.IH"(2) by (simp only: try_edges_step) simp
qed

lemma works_iff: "works ls p = (\<exists>l\<in>set ls. on_line p l)"
proof -
  have "fold (\<lambda>l w. w \<or> on_line p l) ls w0 = (w0 \<or> (\<exists>l\<in>set ls. on_line p l))" for w0
    by (induction ls arbitrary: w0) auto
  then show ?thesis
    by (simp add: works_def)
qed

lemma good_iff: "good pts ls = (\<forall>p\<in>set pts. \<exists>l\<in>set ls. on_line p l)"
proof -
  have "fold (\<lambda>p g. g \<and> works ls p) pts g0 = (g0 \<and> (\<forall>p\<in>set pts. works ls p))" for g0
    by (induction pts arbitrary: g0) auto
  then show ?thesis
    by (simp add: good_def works_iff)
qed

section \<open>More runs on the concrete inputs\<close>

lemma diamond16_hull: "lower_hull diamond16 = [(Fin (- 1), Fin 1), (Fin 0, Fin 0), (Fin 2, Fin 2)]"
  by (simp add: diamond16_def solve_eval cong: let_weak_cong)

lemma diamond16_cand:
  "candidate diamond16 (Fin (- 1), Fin 1) (Fin 0, Fin 0) =
     [(Fin (- 1), Fin 0), (Fin 1, Fin 2), (Fin 1, Fin 0), (Fin (- 1), Fin 4)]"
  by (simp add: diamond16_def solve_eval cong: let_weak_cong)

lemma diamond16_good:
  "good diamond16 [(Fin (- 1), Fin 0), (Fin 1, Fin 2), (Fin 1, Fin 0), (Fin (- 1), Fin 4)]"
  by (simp add: diamond16_def solve_eval cong: let_weak_cong)

lemma diamond16_area:
  "polygon_area (corners [(Fin (- 1), Fin 0), (Fin 1, Fin 2), (Fin 1, Fin 0), (Fin (- 1), Fin 4)]) = Fin 4"
  by (simp add: solve_eval cong: let_weak_cong)

lemma diamond16_try: "try_edges diamond16 (lower_hull diamond16) = Some (Fin 4)"
  by (simp only: diamond16_hull try_edges_step accepted_def diamond16_cand diamond16_good diamond16_area)
     simp

lemma flat16_hull: "lower_hull flat16 = [(Fin 0, Fin 0), (Fin 7, Fin 0), (Fin 7, Fin 3)]"
  by (simp add: flat16_def solve_eval cong: let_weak_cong)

lemma flat16_cand:
  "candidate flat16 (Fin 0, Fin 0) (Fin 7, Fin 0) =
     [(Fin 0, Fin 0), (NInf, PInf), (NInf, NInf), (Fin 0, Fin 3)]"
  by (simp add: flat16_def solve_eval cong: let_weak_cong)

lemma flat16_good: "good flat16 [(Fin 0, Fin 0), (NInf, PInf), (NInf, NInf), (Fin 0, Fin 3)]"
  by (simp add: flat16_def solve_eval cong: let_weak_cong)

lemma flat16_area:
  "polygon_area (corners [(Fin 0, Fin 0), (NInf, PInf), (NInf, NInf), (Fin 0, Fin 3)]) = NaN"
  by (simp add: solve_eval cong: let_weak_cong)

lemma flat16_corners:
  "corners [(Fin 0, Fin 0), (NInf, PInf), (NInf, NInf), (Fin 0, Fin 3)] =
     [(NaN, NaN), (NaN, NaN), (NaN, NaN), (NaN, NaN)]"
  by (simp add: solve_eval cong: let_weak_cong)

lemma flat16_try: "try_edges flat16 (lower_hull flat16) = None"
  using flat16_passes by (simp add: passes_2 split: option.splits)


section \<open>The search over the hull edges\<close>

text \<open>
  Claim C1, as stated: hull edges are tried in hull order and the first verified
  candidate stops the search. On the sixteen points \<open>flat16\<close> the candidate of the
  first hull edge, from (0,0) to (7,0), is verified (every point is within \<open>eps\<close> of
  one of its lines), its area is NaN, and the search goes on to the end of the hull
  without accepting anything.
\<close>

theorem verified_not_accepted_counterexample:
  "lower_hull flat16 = [(Fin 0, Fin 0), (Fin 7, Fin 0), (Fin 7, Fin 3)]
   \<and> good flat16 (candidate flat16 (Fin 0, Fin 0) (Fin 7, Fin 0))
   \<and> polygon_area (corners (candidate flat16 (Fin 0, Fin 0) (Fin 7, Fin 0))) = NaN
   \<and> try_edges flat16 (lower_hull flat16) = None"
  using flat16_hull flat16_cand flat16_good flat16_area flat16_try by simp

text \<open>
  Claim C1, amended: a candidate is accepted only if every input point is within \<open>eps\<close>
  of at least one of its four lines (\<open>|eval(l, x) - y| < eps\<close> for some \<open>l\<close>); a candidate
  that leaves a point uncovered is rejected and the next hull edge is tried; the edges
  are tried in hull order, and the search stops at the first candidate that is
  verified and whose area is not NaN (a verified candidate with a NaN area is passed
  over like a rejected one).
\<close>

theorem first_accepted_edge_stops:
  "good pts ls = (\<forall>p\<in>set pts. \<exists>l\<in>set ls. on_line p l)
   \<and> on_line p l = ld_lt (ld_abs (ld_sub (eval l (fst p)) (snd p))) eps
   \<and> (accepted pts a b \<longrightarrow> good pts (candidate pts a b))
   \<and> (\<not> good pts (candidate pts a b) \<longrightarrow> try_edges pts (a # b # hl) = try_edges pts (b # hl))
   \<and> try_edges pts (a # b # hl) =
       (if good pts (candidate pts a b)
           \<and> \<not> isnan (polygon_area (corners (candidate pts a b)))
        then Some (polygon_area (corners (candidate pts a b)))
        else try_edges pts (b # hl))
   \<and> (try_edges pts h = Some res \<longrightarrow>
        (\<exists>i. Suc i < length h \<and> accepted pts (h ! i) (h ! Suc i)
           \<and> res = polygon_area (corners (candidate pts (h ! i) (h ! Suc i)))
           \<and> (\<forall>j<i. \<not> accepted pts (h ! j) (h ! Suc j))))
   \<and> ((try_edges pts h = None) =
        (\<forall>i. Suc i < length h \<longrightarrow> \<not> accepted pts (h ! i) (h ! Suc i)))"
proof -
  have "try_edges pts (a # b # hl) =
       (if good pts (candidate pts a b)
           \<and> \<not> isnan (polygon_area (corners (candidate pts a b)))
        then Some (polygon_area (corners (candidate pts a b)))
        else try_edges pts (b # hl))"
    by (simp add: Let_def)
  moreover have "\<not> good pts (candidate pts a b) \<longrightarrow>
      try_edges pts (a # b # hl) = try_edges pts (b # hl)"
    by (simp add: Let_def)
  moreover have "accepted pts a b \<longrightarrow> good pts (candidate pts a b)"
    by (simp add: accepted_def)
  ultimately show ?thesis
    using good_iff [of pts ls] try_edges_Some [of pts h res] try_edges_None [of pts h]
    by (simp only: on_line_def) blast
qed

theorem first_accepted_edge_stops_witness:
  "try_edges diamond16 (lower_hull diamond16) = Some (Fin 4)
   \<and> (\<exists>i. Suc i < length (lower_hull diamond16)
         \<and> accepted diamond16 (lower_hull diamond16 ! i) (lower_hull diamond16 ! Suc i)
         \<and> Fin 4 = polygon_area (corners
               (candidate diamond16 (lower_hull diamond16 ! i) (lower_hull diamond16 ! Suc i))))
   \<and> accepted diamond16 (Fin (- 1), Fin 1) (Fin 0, Fin 0)
   \<and> good diamond16 (candidate diamond16 (Fin (- 1), Fin 1) (Fin 0, Fin 0))"
proof -
  have a: "accepted diamond16 (Fin (- 1), Fin 1) (Fin 0, Fin 0)"
    by (simp add: accepted_def diamond16_cand diamond16_good diamond16_area)
  have "\<exists>i. Suc i < length (lower_hull diamond16)
         \<and> accepted diamond16 (lower_hull diamond16 ! i) (lower_hull diamond16 ! Suc i)
         \<and> Fin 4 = polygon_area (corners
               (candidate diamond16 (lower_hull diamond16 ! i) (lower_hull diamond16 ! Suc i)))
         \<and> (\<forall>j<i. \<not> accepted diamond16 (lower_hull diamond16 ! j) (lower_hull diamond16 ! Suc j))"
    using first_accepted_edge_stops [of diamond16 _ _ _ _ _ _ "lower_hull diamond16" "Fin 4"]
      diamond16_try by blast
  moreover have "good diamond16 (candidate diamond16 (Fin (- 1), Fin 1) (Fin 0, Fin 0))"
    using first_accepted_edge_stops [of diamond16 _ _ _ "(Fin (- 1), Fin 1)" "(Fin 0, Fin 0)"] a
    by blast
  ultimately show ?thesis
    using diamond16_try a by blast
qed

section \<open>No failure path\<close>

text \<open>
  Claim C8, as stated: when neither pass accepts a candidate, the program reports a
  failure instead of printing an area. It does not: on the fifteen points \<open>tri15\<close>,
  which are no sample of a rectangle, both passes accept nothing and the program
  prints 6.
\<close>

theorem silent_area_counterexample:
  "fst (passes 2 tri15) = None \<and> solve tri15 = Fin 6"
  by (simp add: solve_def tri15_passes tri15_bbox)

text \<open>
  Claim C8, amended: when neither pass accepts a candidate, the program prints the value
  of the axis-aligned fallback on the points as read, which is
  \<open>(max_y - min_y) * (max_x - min_x)\<close> for the four accumulators that start at \<open>1e9\<close>
  (the minima) and \<open>-1e9\<close> (the maxima) and run over the points. No failure is
  reported in any case: what \<open>solve\<close> prints is the area of the first accepted
  candidate if a pass accepts one, and the value of the fallback otherwise.
\<close>

theorem no_candidate_prints_fallback_value:
  "(fst (passes 2 pts) = None \<longrightarrow> solve pts = bbox_area pts)
   \<and> solve pts = (case fst (passes 2 pts) of Some res \<Rightarrow> res | None \<Rightarrow> bbox_area pts)
   \<and> bbox_area pts =
       (case bbox pts of (min_x, max_x, min_y, max_y) \<Rightarrow>
          ld_mul (ld_sub max_y min_y) (ld_sub max_x min_x))
   \<and> bbox pts =
       fold bbox_step pts (Fin (10 ^ 9), Fin (- (10 ^ 9)), Fin (10 ^ 9), Fin (- (10 ^ 9)))
   \<and> bbox_step p (min_x, max_x, min_y, max_y) =
       (std_min min_x (fst p), std_max max_x (fst p),
        std_min min_y (snd p), std_max max_y (snd p))"
proof -
  have "solve pts = (case fst (passes 2 pts) of Some res \<Rightarrow> res | None \<Rightarrow> bbox_area pts)"
    by (simp add: solve_def passes_2 reflect_reflect split: option.splits)
  moreover have "bbox_area pts =
       (case bbox pts of (min_x, max_x, min_y, max_y) \<Rightarrow>
          ld_mul (ld_sub max_y min_y) (ld_sub max_x min_x))"
    by (simp add: bbox_area_def)
  moreover have "bbox pts =
       fold bbox_step pts (Fin (10 ^ 9), Fin (- (10 ^ 9)), Fin (10 ^ 9), Fin (- (10 ^ 9)))"
    by (simp add: bbox_def)
  ultimately show ?thesis
    by (simp add: bbox_step_tuple)
qed

theorem no_candidate_prints_fallback_value_witness:
  "fst (passes 2 rect20) = None \<and> solve rect20 = bbox_area rect20 \<and> solve rect20 = Fin 12
   \<and> fst (passes 2 diamond16) = Some (Fin 4) \<and> solve diamond16 = Fin 4"
proof -
  have "solve rect20 = bbox_area rect20"
    using no_candidate_prints_fallback_value [of rect20] rect20_passes by simp
  moreover have "fst (passes 2 diamond16) = Some (Fin 4)"
    by (simp add: passes_2 diamond16_try)
  moreover have "solve diamond16 = Fin 4"
    using no_candidate_prints_fallback_value [of diamond16] \<open>fst (passes 2 diamond16) = Some (Fin 4)\<close>
    by simp
  ultimately show ?thesis
    using rect20_passes rect20_bbox by simp
qed

section \<open>Hulls with horizontal and vertical edges only\<close>






section \<open>No NaN from the edge loop\<close>











section \<open>The sides of a candidate\<close>

text \<open>The point of \<open>l1\<close> at the x-coordinate of the projection of \<open>p\<close> is the projection
  itself, the intersection of \<open>l1\<close> with the line of slope \<open>m2\<close> through \<open>p\<close>.\<close>

lemma proj_foot: "(proj_x l1 m2 p, eval l1 (proj_x l1 m2 p)) = intersect l1 (make_line p m2)"
  by (simp add: proj_x_def intersect_def Let_def)

lemma far_diamond16_hull:
  "lower_hull far_diamond16 =
     [(Fin (4 * 10 ^ 9 - 1), Fin 1), (Fin (4 * 10 ^ 9), Fin 0), (Fin (4 * 10 ^ 9 + 2), Fin 2)]"
  by (simp add: far_diamond16_def solve_eval cong: let_weak_cong)

lemma far_diamond16_line:
  "make_line2 (Fin (4 * 10 ^ 9 - 1), Fin 1) (Fin (4 * 10 ^ 9), Fin 0) = (Fin (- 1), Fin (4 * 10 ^ 9))"
  by (simp add: solve_eval)

lemma far_diamond16_proj:
  "list_all (\<lambda>p. ld_lt (Fin (10 ^ 9)) (proj_x (Fin (- 1), Fin (4 * 10 ^ 9)) (Fin 1) p)) far_diamond16"
  by (simp add: far_diamond16_def solve_eval)

lemma far_diamond16_min:
  "min_proj (Fin (- 1), Fin (4 * 10 ^ 9)) (Fin 1) far_diamond16 = Fin (10 ^ 9)"
  by (simp add: far_diamond16_def solve_eval)

lemma far_diamond16_cand:
  "candidate far_diamond16 (Fin (4 * 10 ^ 9 - 1), Fin 1) (Fin (4 * 10 ^ 9), Fin 0) =
     [(Fin (- 1), Fin (4 * 10 ^ 9)), (Fin 1, Fin (2 * 10 ^ 9)), (Fin 1, Fin (- (4 * 10 ^ 9))),
      (Fin (- 1), Fin (4 * 10 ^ 9 + 4))]"
  by (simp add: far_diamond16_def solve_eval cong: let_weak_cong)

lemma far_diamond16_off:
  "list_all (\<lambda>p. make_line p (Fin 1) \<noteq> (Fin 1, Fin (2 * 10 ^ 9))
                \<and> \<not> on_line p (Fin 1, Fin (2 * 10 ^ 9))) far_diamond16"
  by (simp add: far_diamond16_def solve_eval)

lemma diamond16_proj_fin:
  "list_all (\<lambda>q. is_fin (proj_x (Fin (- 1), Fin 0) (Fin 1) q)) diamond16"
  by (simp add: diamond16_def solve_eval)

lemma diamond16_icept_fin:
  "list_all (\<lambda>q. is_fin (snd (make_line q (Fin (- 1))))) diamond16"
  by (simp add: diamond16_def solve_eval)

lemma diamond16_proj_first: "proj_x (Fin (- 1), Fin 0) (Fin 1) (Fin 0, Fin 0) = NegZero"
  by (simp add: solve_eval)

lemma diamond16_icept_first: "snd (make_line (Fin 0, Fin 0) (Fin (- 1))) = Fin 0"
  by (simp add: solve_eval)

text \<open>
  Claim C3, as stated: for each candidate edge, \<open>l2\<close> and \<open>l3\<close> pass through the points
  whose projection onto \<open>l1\<close> has the minimal and the maximal x-coordinate. The points
  \<open>far_diamond16\<close> are sixteen boundary points of the rectangle with corners (4e9,0),
  (4e9+2,2), (4e9+1,3) and (4e9-1,1). The first edge of their lower hull, from
  (4e9-1,1) to (4e9,0), has slope \<open>m1 = -1\<close>, so \<open>m2 = 1\<close>. The projection of every input
  point onto \<open>l1\<close> has an x-coordinate above \<open>1e9\<close>, so \<open>min_x\<close> keeps its initial
  value \<open>1e9\<close>, and \<open>l2\<close> is built from the point of \<open>l1\<close> at \<open>x = 1e9\<close>: it is the line
  \<open>y = x + 2e9\<close>, which is the line of slope \<open>m2\<close> through no input point and has no
  input point within \<open>eps\<close>.
\<close>

theorem sentinel_side_counterexample:
  "lower_hull far_diamond16 =
     [(Fin (4 * 10 ^ 9 - 1), Fin 1), (Fin (4 * 10 ^ 9), Fin 0), (Fin (4 * 10 ^ 9 + 2), Fin 2)]
   \<and> make_line2 (Fin (4 * 10 ^ 9 - 1), Fin 1) (Fin (4 * 10 ^ 9), Fin 0)
       = (Fin (- 1), Fin (4 * 10 ^ 9))
   \<and> ld_div (Fin (- 1)) (Fin (- 1)) = Fin 1
   \<and> list_all (\<lambda>p. ld_lt (Fin (10 ^ 9)) (proj_x (Fin (- 1), Fin (4 * 10 ^ 9)) (Fin 1) p))
        far_diamond16
   \<and> min_proj (Fin (- 1), Fin (4 * 10 ^ 9)) (Fin 1) far_diamond16 = Fin (10 ^ 9)
   \<and> candidate far_diamond16 (Fin (4 * 10 ^ 9 - 1), Fin 1) (Fin (4 * 10 ^ 9), Fin 0) =
       [(Fin (- 1), Fin (4 * 10 ^ 9)), (Fin 1, Fin (2 * 10 ^ 9)), (Fin 1, Fin (- (4 * 10 ^ 9))),
        (Fin (- 1), Fin (4 * 10 ^ 9 + 4))]
   \<and> list_all (\<lambda>p. make_line p (Fin 1) \<noteq> (Fin 1, Fin (2 * 10 ^ 9))
                  \<and> \<not> on_line p (Fin 1, Fin (2 * 10 ^ 9))) far_diamond16"
  using far_diamond16_hull far_diamond16_line far_diamond16_proj far_diamond16_min
    far_diamond16_cand far_diamond16_off
  by (simp add: ld_div_eval)

text \<open>
  Claim C3, amended: for the candidate of the hull edge from \<open>a\<close> to \<open>b\<close>, \<open>l1\<close> is the
  line through \<open>a\<close> and \<open>b\<close> as \<^verbatim>\<open>make_line(a, b)\<close> computes it, with slope \<open>m1\<close>, and the
  perpendicular slope is the scalar \<open>m2 = -1 / m1\<close> as the program computes it. \<open>l2\<close> and
  \<open>l3\<close> are the lines of slope \<open>m2\<close> through the points of \<open>l1\<close> at \<open>x = min_x\<close> and
  \<open>x = max_x\<close>, and \<open>l4\<close> is the line of slope \<open>m1\<close> with intercept \<open>max_b\<close>, where
  \<open>min_x\<close>, \<open>max_x\<close> and \<open>max_b\<close> are the accumulators of the two loops over the input
  points, started at \<open>1e9\<close>, \<open>-1e9\<close> and \<open>-1e9\<close>. The projection of a point onto \<open>l1\<close> is
  the intersection of \<open>l1\<close> with the line of slope \<open>m2\<close> through the point. When the
  x-coordinates of the projections are all finite, \<open>min_x\<close> is the least of \<open>1e9\<close> and
  those x-coordinates and \<open>max_x\<close> the greatest of \<open>-1e9\<close> and them; when moreover some
  of them is at most \<open>1e9\<close> (at least \<open>-1e9\<close>), \<open>l2\<close> (\<open>l3\<close>) is the line of slope \<open>m2\<close>
  through the projection onto \<open>l1\<close> of an input point whose projection has the least
  (greatest) x-coordinate. When the intercepts of the lines of slope \<open>m1\<close> through the
  input points are all finite, the intercept of \<open>l4\<close> is the greatest of \<open>-1e9\<close> and
  those intercepts; when moreover some of them is at least \<open>-1e9\<close>, \<open>l4\<close> is the line of
  slope \<open>m1\<close> through an input point, one with the greatest intercept.
\<close>

theorem candidate_sides:
  assumes "candidate pts a b = [l1, l2, l3, l4]"
  shows "l1 = make_line2 a b
    \<and> fst l2 = ld_div (Fin (- 1)) (fst l1) \<and> fst l3 = fst l2 \<and> fst l4 = fst l1
    \<and> l2 = make_line (min_proj l1 (fst l2) pts, eval l1 (min_proj l1 (fst l2) pts)) (fst l2)
    \<and> l3 = make_line (max_proj l1 (fst l2) pts, eval l1 (max_proj l1 (fst l2) pts)) (fst l2)
    \<and> l4 = (fst l1, max_icept (fst l1) pts)
    \<and> min_proj l1 (fst l2) pts =
        fold (\<lambda>p acc. std_min acc (fst (intersect l1 (make_line p (fst l2))))) pts (Fin (10 ^ 9))
    \<and> max_proj l1 (fst l2) pts =
        fold (\<lambda>p acc. std_max acc (fst (intersect l1 (make_line p (fst l2))))) pts (Fin (- (10 ^ 9)))
    \<and> max_icept (fst l1) pts =
        fold (\<lambda>p acc. std_max acc (snd (make_line p (fst l1)))) pts (Fin (- (10 ^ 9)))
    \<and> ((\<forall>q\<in>set pts. is_fin (proj_x l1 (fst l2) q)) \<longrightarrow>
         rv (min_proj l1 (fst l2) pts) =
           Min (insert (10 ^ 9) ((\<lambda>q. rv (proj_x l1 (fst l2) q)) ` set pts))
         \<and> rv (max_proj l1 (fst l2) pts) =
           Max (insert (- (10 ^ 9)) ((\<lambda>q. rv (proj_x l1 (fst l2) q)) ` set pts))
         \<and> ((\<exists>q\<in>set pts. rv (proj_x l1 (fst l2) q) \<le> 10 ^ 9) \<longrightarrow>
              (\<exists>p\<in>set pts. (\<forall>q\<in>set pts. rv (proj_x l1 (fst l2) p) \<le> rv (proj_x l1 (fst l2) q))
                 \<and> l2 = make_line (intersect l1 (make_line p (fst l2))) (fst l2)))
         \<and> ((\<exists>q\<in>set pts. - (10 ^ 9) \<le> rv (proj_x l1 (fst l2) q)) \<longrightarrow>
              (\<exists>p\<in>set pts. (\<forall>q\<in>set pts. rv (proj_x l1 (fst l2) q) \<le> rv (proj_x l1 (fst l2) p))
                 \<and> l3 = make_line (intersect l1 (make_line p (fst l2))) (fst l2))))
    \<and> ((\<forall>q\<in>set pts. is_fin (snd (make_line q (fst l1)))) \<longrightarrow>
         rv (snd l4) =
           Max (insert (- (10 ^ 9)) ((\<lambda>q. rv (snd (make_line q (fst l1)))) ` set pts))
         \<and> ((\<exists>q\<in>set pts. - (10 ^ 9) \<le> rv (snd (make_line q (fst l1)))) \<longrightarrow>
              (\<exists>p\<in>set pts. l4 = make_line p (fst l1)
                 \<and> (\<forall>q\<in>set pts. rv (snd (make_line q (fst l1))) \<le> rv (snd l4)))))"
proof -
  have l1: "l1 = make_line2 a b"
    and e2: "l2 = make_line (min_proj l1 (ld_div (Fin (- 1)) (fst l1)) pts,
                   eval l1 (min_proj l1 (ld_div (Fin (- 1)) (fst l1)) pts))
                  (ld_div (Fin (- 1)) (fst l1))"
    and e3: "l3 = make_line (max_proj l1 (ld_div (Fin (- 1)) (fst l1)) pts,
                   eval l1 (max_proj l1 (ld_div (Fin (- 1)) (fst l1)) pts))
                  (ld_div (Fin (- 1)) (fst l1))"
    and l4: "l4 = (fst l1, max_icept (fst l1) pts)"
    using assms by (auto simp add: candidate_eq)
  have s2: "fst l2 = ld_div (Fin (- 1)) (fst l1)"
    by (subst e2) (simp add: make_line_def)
  have s3: "fst l3 = fst l2"
    by (subst e3) (simp add: make_line_def s2)
  have s4: "fst l4 = fst l1"
    by (simp add: l4)
  have d2: "l2 = make_line (min_proj l1 (fst l2) pts, eval l1 (min_proj l1 (fst l2) pts)) (fst l2)"
    and d3: "l3 = make_line (max_proj l1 (fst l2) pts, eval l1 (max_proj l1 (fst l2) pts)) (fst l2)"
    by (simp_all only: s2 s3) (rule e2 e3)+
  have u1: "min_proj l1 (fst l2) pts =
        fold (\<lambda>p acc. std_min acc (fst (intersect l1 (make_line p (fst l2))))) pts (Fin (10 ^ 9))"
    and u2: "max_proj l1 (fst l2) pts =
        fold (\<lambda>p acc. std_max acc (fst (intersect l1 (make_line p (fst l2))))) pts (Fin (- (10 ^ 9)))"
    and u3: "max_icept (fst l1) pts =
        fold (\<lambda>p acc. std_max acc (snd (make_line p (fst l1)))) pts (Fin (- (10 ^ 9)))"
    by (simp_all only: min_proj_def max_proj_def max_icept_def proj_x_def)
  have a: "(\<forall>q\<in>set pts. is_fin (proj_x l1 (fst l2) q)) \<longrightarrow>
         rv (min_proj l1 (fst l2) pts) =
           Min (insert (10 ^ 9) ((\<lambda>q. rv (proj_x l1 (fst l2) q)) ` set pts))
         \<and> rv (max_proj l1 (fst l2) pts) =
           Max (insert (- (10 ^ 9)) ((\<lambda>q. rv (proj_x l1 (fst l2) q)) ` set pts))
         \<and> ((\<exists>q\<in>set pts. rv (proj_x l1 (fst l2) q) \<le> 10 ^ 9) \<longrightarrow>
              (\<exists>p\<in>set pts. (\<forall>q\<in>set pts. rv (proj_x l1 (fst l2) p) \<le> rv (proj_x l1 (fst l2) q))
                 \<and> l2 = make_line (intersect l1 (make_line p (fst l2))) (fst l2)))
         \<and> ((\<exists>q\<in>set pts. - (10 ^ 9) \<le> rv (proj_x l1 (fst l2) q)) \<longrightarrow>
              (\<exists>p\<in>set pts. (\<forall>q\<in>set pts. rv (proj_x l1 (fst l2) q) \<le> rv (proj_x l1 (fst l2) p))
                 \<and> l3 = make_line (intersect l1 (make_line p (fst l2))) (fst l2)))"
  proof (intro impI conjI)
    assume pf: "\<forall>q\<in>set pts. is_fin (proj_x l1 (fst l2) q)"
    show "rv (min_proj l1 (fst l2) pts) =
           Min (insert (10 ^ 9) ((\<lambda>q. rv (proj_x l1 (fst l2) q)) ` set pts))"
      using fold_min_value [OF pf, of "Fin (10 ^ 9)"] by (simp add: min_proj_def)
    show "rv (max_proj l1 (fst l2) pts) =
           Max (insert (- (10 ^ 9)) ((\<lambda>q. rv (proj_x l1 (fst l2) q)) ` set pts))"
      using fold_max_value [OF pf, of "Fin (- (10 ^ 9))"] by (simp add: max_proj_def)
    {
      assume "\<exists>q\<in>set pts. rv (proj_x l1 (fst l2) q) \<le> 10 ^ 9"
      then have "\<exists>q\<in>set pts. rv (proj_x l1 (fst l2) q) \<le> rv (Fin (10 ^ 9))"
        by simp
      from fold_min_attained [OF pf _ _ this]
      obtain p where p: "p \<in> set pts"
        "min_proj l1 (fst l2) pts = proj_x l1 (fst l2) p"
        "\<forall>q\<in>set pts. rv (proj_x l1 (fst l2) p) \<le> rv (proj_x l1 (fst l2) q)"
        by (auto simp add: min_proj_def)
      have "l2 = make_line (proj_x l1 (fst l2) p, eval l1 (proj_x l1 (fst l2) p)) (fst l2)"
        using d2 by (simp only: p(2))
      then have "l2 = make_line (intersect l1 (make_line p (fst l2))) (fst l2)"
        by (simp only: proj_foot)
      with p(1,3)
      show "\<exists>p\<in>set pts. (\<forall>q\<in>set pts. rv (proj_x l1 (fst l2) p) \<le> rv (proj_x l1 (fst l2) q))
                 \<and> l2 = make_line (intersect l1 (make_line p (fst l2))) (fst l2)"
        by blast
    }
    {
      assume "\<exists>q\<in>set pts. - (10 ^ 9) \<le> rv (proj_x l1 (fst l2) q)"
      then have "\<exists>q\<in>set pts. rv (Fin (- (10 ^ 9))) \<le> rv (proj_x l1 (fst l2) q)"
        by simp
      from fold_max_attained [OF pf _ _ this]
      obtain p where p: "p \<in> set pts"
        "max_proj l1 (fst l2) pts = proj_x l1 (fst l2) p"
        "\<forall>q\<in>set pts. rv (proj_x l1 (fst l2) q) \<le> rv (proj_x l1 (fst l2) p)"
        by (auto simp add: max_proj_def)
      have "l3 = make_line (proj_x l1 (fst l2) p, eval l1 (proj_x l1 (fst l2) p)) (fst l2)"
        using d3 by (simp only: p(2))
      then have "l3 = make_line (intersect l1 (make_line p (fst l2))) (fst l2)"
        by (simp only: proj_foot)
      with p(1,3)
      show "\<exists>p\<in>set pts. (\<forall>q\<in>set pts. rv (proj_x l1 (fst l2) q) \<le> rv (proj_x l1 (fst l2) p))
                 \<and> l3 = make_line (intersect l1 (make_line p (fst l2))) (fst l2)"
        by blast
    }
  qed
  have c: "(\<forall>q\<in>set pts. is_fin (snd (make_line q (fst l1)))) \<longrightarrow>
         rv (snd l4) =
           Max (insert (- (10 ^ 9)) ((\<lambda>q. rv (snd (make_line q (fst l1)))) ` set pts))
         \<and> ((\<exists>q\<in>set pts. - (10 ^ 9) \<le> rv (snd (make_line q (fst l1)))) \<longrightarrow>
              (\<exists>p\<in>set pts. l4 = make_line p (fst l1)
                 \<and> (\<forall>q\<in>set pts. rv (snd (make_line q (fst l1))) \<le> rv (snd l4))))"
  proof (intro impI conjI)
    assume bf: "\<forall>q\<in>set pts. is_fin (snd (make_line q (fst l1)))"
    show "rv (snd l4) =
           Max (insert (- (10 ^ 9)) ((\<lambda>q. rv (snd (make_line q (fst l1)))) ` set pts))"
      using fold_max_value [OF bf, of "Fin (- (10 ^ 9))"] by (simp add: max_icept_def l4)
    assume "\<exists>q\<in>set pts. - (10 ^ 9) \<le> rv (snd (make_line q (fst l1)))"
    then have "\<exists>q\<in>set pts. rv (Fin (- (10 ^ 9))) \<le> rv (snd (make_line q (fst l1)))"
      by simp
    from fold_max_attained [OF bf _ _ this]
    obtain p where p: "p \<in> set pts"
      "max_icept (fst l1) pts = snd (make_line p (fst l1))"
      "\<forall>q\<in>set pts. rv (snd (make_line q (fst l1))) \<le> rv (snd (make_line p (fst l1)))"
      by (auto simp add: max_icept_def)
    have "l4 = make_line p (fst l1)"
      by (simp add: l4 p(2)) (simp add: make_line_def)
    moreover have "\<forall>q\<in>set pts. rv (snd (make_line q (fst l1))) \<le> rv (snd l4)"
      using p(3) by (simp add: l4 p(2))
    ultimately
    show "\<exists>p\<in>set pts. l4 = make_line p (fst l1)
                 \<and> (\<forall>q\<in>set pts. rv (snd (make_line q (fst l1))) \<le> rv (snd l4))"
      using p(1) by blast
  qed
  from l1 s2 s3 s4 d2 d3 l4 u1 u2 u3 a c show ?thesis
    by (intro conjI)
qed

theorem candidate_sides_witness:
  "candidate diamond16 (Fin (- 1), Fin 1) (Fin 0, Fin 0) =
       [(Fin (- 1), Fin 0), (Fin 1, Fin 2), (Fin 1, Fin 0), (Fin (- 1), Fin 4)]
   \<and> list_all (\<lambda>q. is_fin (proj_x (Fin (- 1), Fin 0) (Fin 1) q)) diamond16
   \<and> list_all (\<lambda>q. is_fin (snd (make_line q (Fin (- 1))))) diamond16
   \<and> (\<exists>p\<in>set diamond16.
        (Fin 1, Fin 2) = make_line (intersect (Fin (- 1), Fin 0) (make_line p (Fin 1))) (Fin 1))
   \<and> (\<exists>p\<in>set diamond16.
        (Fin 1, Fin 0) = make_line (intersect (Fin (- 1), Fin 0) (make_line p (Fin 1))) (Fin 1))
   \<and> (\<exists>p\<in>set diamond16. (Fin (- 1), Fin 4) = make_line p (Fin (- 1)))"
proof -
  let ?l1 = "(Fin (- 1), Fin 0)" and ?l2 = "(Fin 1, Fin 2)"
  let ?l3 = "(Fin 1, Fin 0)" and ?l4 = "(Fin (- 1), Fin 4)"
  have q: "(Fin 0, Fin 0) \<in> set diamond16"
    by (simp add: diamond16_def rpt_def)
  have pf: "\<forall>q\<in>set diamond16. is_fin (proj_x ?l1 (fst ?l2) q)"
    using diamond16_proj_fin by (simp add: list_all_iff)
  have bf: "\<forall>q\<in>set diamond16. is_fin (snd (make_line q (fst ?l1)))"
    using diamond16_icept_fin by (simp add: list_all_iff)
  have x1: "\<exists>q\<in>set diamond16. rv (proj_x ?l1 (fst ?l2) q) \<le> 10 ^ 9"
    using q diamond16_proj_first by (intro bexI [of _ "(Fin 0, Fin 0)"]) simp_all
  have x2: "\<exists>q\<in>set diamond16. - (10 ^ 9) \<le> rv (proj_x ?l1 (fst ?l2) q)"
    using q diamond16_proj_first by (intro bexI [of _ "(Fin 0, Fin 0)"]) simp_all
  have x3: "\<exists>q\<in>set diamond16. - (10 ^ 9) \<le> rv (snd (make_line q (fst ?l1)))"
    using q diamond16_icept_first by (intro bexI [of _ "(Fin 0, Fin 0)"]) simp_all
  note c = candidate_sides [OF diamond16_cand]
  have "\<exists>p\<in>set diamond16. ?l2 = make_line (intersect ?l1 (make_line p (fst ?l2))) (fst ?l2)"
    using c pf x1 by blast
  moreover have "\<exists>p\<in>set diamond16. ?l3 = make_line (intersect ?l1 (make_line p (fst ?l2))) (fst ?l2)"
    using c pf x2 by blast
  moreover have "\<exists>p\<in>set diamond16. ?l4 = make_line p (fst ?l1)"
    using c bf x3 by blast
  ultimately show ?thesis
    using diamond16_cand diamond16_proj_fin diamond16_icept_fin by simp
qed

section \<open>The reported area\<close>

lemma accepted_nonneg:
  "accepted pts a b \<Longrightarrow> ld_le (Fin 0) (polygon_area (corners (candidate pts a b)))"
  using polygon_area_sign(2) [of "corners (candidate pts a b)"] by (simp add: accepted_def)

lemma diamond16_corners:
  "corners [(Fin (- 1), Fin 0), (Fin 1, Fin 2), (Fin 1, Fin 0), (Fin (- 1), Fin 4)] =
     [(NegZero, Fin 0), (Fin 2, Fin 2), (Fin 1, Fin 3), (Fin (- 1), Fin 1)]"
  by (simp add: solve_eval cong: let_weak_cong)

text \<open>
  Claim C4, as stated, ends: \<open>polygon_area\<close> is non-negative for every vertex list. The
  vertex list that \<open>solve\<close> builds for the first hull edge of \<open>flat16\<close> consists
  of NaN coordinates, and its \<open>polygon_area\<close> is NaN, which is not \<open>\<ge> 0\<close>.
\<close>

theorem nan_area_counterexample:
  "corners (candidate flat16 (Fin 0, Fin 0) (Fin 7, Fin 0)) =
     [(NaN, NaN), (NaN, NaN), (NaN, NaN), (NaN, NaN)]
   \<and> polygon_area [(NaN, NaN), (NaN, NaN), (NaN, NaN), (NaN, NaN)] = NaN
   \<and> \<not> ld_le (Fin 0) (polygon_area [(NaN, NaN), (NaN, NaN), (NaN, NaN), (NaN, NaN)])"
  using flat16_cand flat16_corners flat16_area by (simp add: ld_le_eval)

text \<open>
  Claim C4, amended: on acceptance the reported area is \<open>polygon_area\<close> of the four
  corners, which are the intersections of neighbouring sides in the cyclic order
  \<open>l1, l3, l4, l2\<close>. \<open>polygon_area\<close> of four corners is the shoelace value as the program
  computes it: starting from 0, the terms \<open>x\<^sub>i * y\<^sub>i\<^sub>+\<^sub>1 - y\<^sub>i * x\<^sub>i\<^sub>+\<^sub>1\<close> of consecutive
  corners are added in order, and the absolute value of the sum is divided by 2. The
  reported area is not NaN and \<open>\<ge> 0\<close>. For every vertex list \<open>polygon_area\<close> is NaN or
  \<open>\<ge> 0\<close>, and never \<open>< 0\<close>.
\<close>

theorem accepted_area_is_shoelace:
  "corners [l1, l2, l3, l4] =
     [intersect l1 l3, intersect l3 l4, intersect l4 l2, intersect l2 l1]
   \<and> polygon_area [c0, c1, c2, c3] =
       ld_div (ld_abs
         (ld_add (ld_add (ld_add (ld_add (Fin 0)
            (ld_sub (ld_mul (fst c0) (snd c1)) (ld_mul (snd c0) (fst c1))))
            (ld_sub (ld_mul (fst c1) (snd c2)) (ld_mul (snd c1) (fst c2))))
            (ld_sub (ld_mul (fst c2) (snd c3)) (ld_mul (snd c2) (fst c3))))
            (ld_sub (ld_mul (fst c3) (snd c0)) (ld_mul (snd c3) (fst c0))))) (Fin 2)
   \<and> (try_edges pts h = Some res \<longrightarrow>
        (\<exists>i. Suc i < length h
           \<and> res = polygon_area (corners (candidate pts (h ! i) (h ! Suc i)))
           \<and> \<not> isnan res \<and> ld_le (Fin 0) res))
   \<and> (isnan (polygon_area locs) \<or> ld_le (Fin 0) (polygon_area locs))
   \<and> \<not> ld_lt (polygon_area locs) (Fin 0)"
proof -
  have a: "try_edges pts h = Some res \<longrightarrow>
        (\<exists>i. Suc i < length h
           \<and> res = polygon_area (corners (candidate pts (h ! i) (h ! Suc i)))
           \<and> \<not> isnan res \<and> ld_le (Fin 0) res)"
  proof
    assume te: "try_edges pts h = Some res"
    obtain i where i: "Suc i < length h" "accepted pts (h ! i) (h ! Suc i)"
      "res = polygon_area (corners (candidate pts (h ! i) (h ! Suc i)))"
      using try_edges_Some [OF te] by blast
    have "\<not> isnan res" "ld_le (Fin 0) res"
      using i(2,3) accepted_nonneg [OF i(2)] by (simp_all add: accepted_def)
    then show "\<exists>i. Suc i < length h
           \<and> res = polygon_area (corners (candidate pts (h ! i) (h ! Suc i)))
           \<and> \<not> isnan res \<and> ld_le (Fin 0) res"
      using i(1,3) by blast
  qed
  from corners_eval [of l1 l2 l3 l4] polygon_area_4 [of c0 c1 c2 c3] a
    polygon_area_sign(2) [of locs] polygon_area_sign(1) [of locs]
  show ?thesis
    by (intro conjI)
qed

theorem accepted_area_is_shoelace_witness:
  "try_edges diamond16 (lower_hull diamond16) = Some (Fin 4)
   \<and> (\<exists>i. Suc i < length (lower_hull diamond16)
        \<and> Fin 4 = polygon_area (corners
              (candidate diamond16 (lower_hull diamond16 ! i) (lower_hull diamond16 ! Suc i)))
        \<and> \<not> isnan (Fin 4) \<and> ld_le (Fin 0) (Fin 4))
   \<and> corners (candidate diamond16 (Fin (- 1), Fin 1) (Fin 0, Fin 0)) =
       [(NegZero, Fin 0), (Fin 2, Fin 2), (Fin 1, Fin 3), (Fin (- 1), Fin 1)]
   \<and> polygon_area [(NegZero, Fin 0), (Fin 2, Fin 2), (Fin 1, Fin 3), (Fin (- 1), Fin 1)] = Fin 4"
proof -
  have "\<exists>i. Suc i < length (lower_hull diamond16)
        \<and> Fin 4 = polygon_area (corners
              (candidate diamond16 (lower_hull diamond16 ! i) (lower_hull diamond16 ! Suc i)))
        \<and> \<not> isnan (Fin 4) \<and> ld_le (Fin 0) (Fin 4)"
    using accepted_area_is_shoelace [of _ _ _ _ _ _ _ _ diamond16 "lower_hull diamond16" "Fin 4"]
      diamond16_try by blast
  moreover have "polygon_area [(NegZero, Fin 0), (Fin 2, Fin 2), (Fin 1, Fin 3), (Fin (- 1), Fin 1)]
      = Fin 4"
    using diamond16_area by (simp only: diamond16_corners)
  ultimately show ?thesis
    using diamond16_try diamond16_cand diamond16_corners by simp
qed

end
